theory Spec2Isabelle
  imports Complex_Main "HOL-Library.Word" "HOL-Library.Log_Nat"
begin

section \<open>Pixel grids and the minutiae scan (fingerprint_processing.py, extract_minutiae)\<close>

text \<open>
  A single-channel image is a row-major grid of unsigned 8-bit pixels, as the numpy
  arrays of dtype uint8 in the source. The skeleton returned by \<open>skeletonize\<close> holds
  only the values 0 and 255; the scan tests pixels with \<open>== 255\<close>.
\<close>

type_synonym pixel = "8 word"
type_synonym image = "pixel list list"
type_synonym point = "nat \<times> nat"

definition rows :: "image \<Rightarrow> nat" where
  "rows img = length img"

definition cols :: "image \<Rightarrow> nat" where
  "cols img = (case img of [] \<Rightarrow> 0 | r # _ \<Rightarrow> length r)"

text \<open>A two-dimensional array: every row has the same length.\<close>

definition rect :: "image \<Rightarrow> bool" where
  "rect img = list_all (\<lambda>r. length r = cols img) img"

text \<open>
  numpy's basic slice \<open>xs[a:b]\<close> for non-negative bounds: it is clamped at the end of
  the array and never raises.
\<close>

definition slice :: "nat \<Rightarrow> nat \<Rightarrow> 'a list \<Rightarrow> 'a list" where
  "slice a b xs = take (b - a) (drop a xs)"

definition slice2 :: "nat \<Rightarrow> nat \<Rightarrow> nat \<Rightarrow> nat \<Rightarrow> image \<Rightarrow> image" where
  "slice2 r0 r1 c0 c1 img = map (slice c0 c1) (slice r0 r1 img)"

text \<open>\<open>np.sum(window == 255)\<close>: the number of pixels of the window that are on.\<close>

definition count_on :: "image \<Rightarrow> nat" where
  "count_on w = sum_list (map (\<lambda>r. length (filter (\<lambda>p. p = 255) r)) w)"

definition USE_MINUTIAE_FILTERING :: bool where
  "USE_MINUTIAE_FILTERING = True"

datatype minutiae_type = Ending | Bifurcation

text \<open>
  Lines 89-98: the body of the scan up to the classification. \<open>None\<close> is the
  \<open>continue\<close> of the source (pixel off, or a count of 0 or 2). The count is the sum
  over the 3x3 slice minus one for the centre, an integer as in numpy. The scan calls
  this with \<open>i\<close> and \<open>j\<close> from 1 on, so the lower bounds of the slice are not negative.
\<close>

definition crossing_count :: "image \<Rightarrow> nat \<Rightarrow> nat \<Rightarrow> int" where
  "crossing_count skeleton_img i j =
     int (count_on (slice2 (i - 1) (i + 2) (j - 1) (j + 2) skeleton_img)) - 1"

definition classify :: "image \<Rightarrow> nat \<Rightarrow> nat \<Rightarrow> minutiae_type option" where
  "classify skeleton_img i j =
     (if skeleton_img ! i ! j = 255 then
        (let count = crossing_count skeleton_img i j in
         if count = 1 then Some Ending
         else if count \<ge> 3 then Some Bifurcation
         else None)
      else None)"

text \<open>
  Lines 100-104: the local window \<open>skeleton_img[max(i - 5, 0):i + 6, max(j - 5, 0):j + 6]\<close>;
  the subtraction on \<open>nat\<close> stops at 0, which is the \<open>max(_, 0)\<close> of the source.
\<close>

definition density :: "image \<Rightarrow> nat \<Rightarrow> nat \<Rightarrow> nat" where
  "density skeleton_img i j =
     count_on (slice2 (i - 5) (i + 6) (j - 5) (j + 6) skeleton_img)"

text \<open>One iteration of the inner loop on the two accumulators.\<close>

definition scan_step :: "image \<Rightarrow> point list \<times> point list \<Rightarrow> point \<Rightarrow> point list \<times> point list" where
  "scan_step skeleton_img acc ij =
     (case ij of (i, j) \<Rightarrow>
      case acc of (minutiae_endings, minutiae_bifurcations) \<Rightarrow>
      (case classify skeleton_img i j of
         None \<Rightarrow> acc
       | Some minutiae_type \<Rightarrow>
           if USE_MINUTIAE_FILTERING \<and> density skeleton_img i j < 10 then acc
           else (case minutiae_type of
                   Ending \<Rightarrow> (minutiae_endings @ [(i, j)], minutiae_bifurcations)
                 | Bifurcation \<Rightarrow> (minutiae_endings, minutiae_bifurcations @ [(i, j)]))))"

text \<open>
  The index pairs visited by \<open>for i in range(1, rows - 1): for j in range(1, cols - 1)\<close>,
  in raster order. With fewer than three rows or columns the ranges are empty, in
  Python as here.
\<close>

definition scan_indices :: "image \<Rightarrow> point list" where
  "scan_indices skeleton_img =
     concat (map (\<lambda>i. map (\<lambda>j. (i, j)) [1 ..< cols skeleton_img - 1])
                 [1 ..< rows skeleton_img - 1])"

definition scan_lists :: "image \<Rightarrow> point list \<times> point list" where
  "scan_lists skeleton_img = foldl (scan_step skeleton_img) ([], []) (scan_indices skeleton_img)"

text \<open>The returned array: \<open>minutiae_endings + minutiae_bifurcations\<close>.\<close>

definition scan_minutiae :: "image \<Rightarrow> point list" where
  "scan_minutiae skeleton_img = (case scan_lists skeleton_img of (es, bs) \<Rightarrow> es @ bs)"

subsection \<open>The same quantities, position by position\<close>

text \<open>The number of on pixels among the eight neighbours of \<open>(i, j)\<close>.\<close>

definition on :: "image \<Rightarrow> nat \<Rightarrow> nat \<Rightarrow> nat" where
  "on img a b = (if img ! a ! b = 255 then 1 else 0)"

definition neighbours8 :: "image \<Rightarrow> nat \<Rightarrow> nat \<Rightarrow> nat" where
  "neighbours8 img i j =
     on img (i - 1) (j - 1) + on img (i - 1) j + on img (i - 1) (j + 1)
   + on img i (j - 1) + on img i (j + 1)
   + on img (i + 1) (j - 1) + on img (i + 1) j + on img (i + 1) (j + 1)"

text \<open>
  The number of on pixels at the positions \<open>(a, b)\<close> of the image with
  \<open>i - 5 \<le> a \<le> i + 5\<close> and \<open>j - 5 \<le> b \<le> j + 5\<close>: the 11x11 window centred on
  \<open>(i, j)\<close>, cut at the borders of the image.
\<close>

definition window11 :: "image \<Rightarrow> nat \<Rightarrow> nat \<Rightarrow> nat" where
  "window11 img i j =
     sum_list (map (\<lambda>a. sum_list (map (\<lambda>b. on img a b) [j - 5 ..< min (j + 6) (cols img)]))
                   [i - 5 ..< min (i + 6) (rows img)])"

definition interior :: "image \<Rightarrow> nat \<Rightarrow> nat \<Rightarrow> bool" where
  "interior img i j = (1 \<le> i \<and> i + 1 < rows img \<and> 1 \<le> j \<and> j + 1 < cols img)"


text \<open>What one iteration appends: the candidate of type \<open>t\<close> that passes the density filter.\<close>

definition kept :: "image \<Rightarrow> minutiae_type \<Rightarrow> point \<Rightarrow> bool" where
  "kept img t ij = (case ij of (i, j) \<Rightarrow>
     classify img i j = Some t \<and> \<not> (USE_MINUTIAE_FILTERING \<and> density img i j < 10))"

subsection \<open>Two small skeletons\<close>

text \<open>
  Two parallel ridges of eleven pixels joined by one pixel (ridge endings at the four
  ends, bifurcations around the joint), and a lone stub of two pixels.
\<close>

definition ridge_row :: "pixel list" where
  "ridge_row = [0, 255, 255, 255, 255, 255, 255, 255, 255, 255, 255, 255, 0]"

definition blank_row :: "pixel list" where
  "blank_row = [0, 0, 0, 0, 0, 0, 0, 0, 0, 0, 0, 0, 0]"

definition joint_row :: "pixel list" where
  "joint_row = [0, 0, 0, 0, 0, 0, 255, 0, 0, 0, 0, 0, 0]"

definition ex_skeleton :: image where
  "ex_skeleton = [blank_row, ridge_row, joint_row, ridge_row, blank_row]"

definition ex_stub :: image where
  "ex_stub = [[0, 0, 0, 0, 0], [0, 0, 0, 0, 0], [0, 0, 255, 255, 0], [0, 0, 0, 0, 0], [0, 0, 0, 0, 0]]"


section \<open>The vision library, taken as given\<close>

text \<open>
  OpenCV, scikit-image and the file system are not part of the program. What the
  program asks of them is a parameter of the model, one field per call:
  \<^item> \<open>imread\<close>: \<open>cv2.imread(path, cv2.IMREAD_GRAYSCALE)\<close>, \<open>None\<close> when the file
    cannot be decoded;
  \<^item> \<open>laplacian_var\<close>: \<open>cv2.Laplacian(image, cv2.CV_64F).var()\<close>;
  \<^item> \<open>large_contours\<close>: lines 144-165 of \<open>is_fingerprint_present\<close>, the number of
    contours of area above 1000 found in the file, \<open>None\<close> when it cannot be decoded;
  \<^item> \<open>rotate_image\<close>: \<open>cv2.warpAffine\<close> about the centre by an angle in degrees;
  \<^item> \<open>enhance_fingerprint\<close>: resize, CLAHE, equalisation, blur and the Gabor bank;
  \<^item> \<open>skeletonize\<close>: Otsu threshold and \<open>morph.skeletonize\<close>, times 255;
  \<^item> \<open>orb_descriptors\<close>: the descriptors of \<open>orb.detectAndCompute\<close>, \<open>None\<close> when
    OpenCV returns no array;
  \<^item> \<open>bf_matches\<close>: \<open>len(bf.match(descriptors, stored_desc))\<close>.
  The thread pool of the source joins both futures before going on and the two tasks
  share no state, so the model calls them in sequence. Every call is taken to return:
  an exception raised inside a library would leave the functions below through none
  of their own branches.
\<close>

type_synonym descriptor = "8 word list"

record 'img cv =
  imread :: "string \<Rightarrow> 'img option"
  laplacian_var :: "'img \<Rightarrow> real"
  large_contours :: "string \<Rightarrow> nat option"
  rotate_image :: "'img \<Rightarrow> int \<Rightarrow> 'img"
  enhance_fingerprint :: "'img \<Rightarrow> 'img"
  skeletonize :: "'img \<Rightarrow> image"
  orb_descriptors :: "'img \<Rightarrow> descriptor list option"
  bf_matches :: "descriptor list \<Rightarrow> descriptor list \<Rightarrow> nat"

definition is_image_blurry :: "'img cv \<Rightarrow> 'img \<Rightarrow> bool" where
  "is_image_blurry lib img = (laplacian_var lib img < 5.0)"

definition is_fingerprint_present :: "'img cv \<Rightarrow> string \<Rightarrow> bool" where
  "is_fingerprint_present lib image_path =
     (case large_contours lib image_path of None \<Rightarrow> False | Some n \<Rightarrow> n > 0)"

definition extract_minutiae :: "'img cv \<Rightarrow> 'img \<Rightarrow> point list" where
  "extract_minutiae lib img = scan_minutiae (skeletonize lib img)"

section \<open>Storage (database.py)\<close>

text \<open>
  A row of the table \<open>fingerprints\<close>: the columns \<open>user_id\<close> (UNIQUE), \<open>username\<close>,
  \<open>phone\<close>, and \<open>descriptors\<close>, the JSON document of the whole template. The
  autoincrement key is not read anywhere.
\<close>

record template =
  orb :: "descriptor list"
  minutiae :: "point list"
  username :: string
  phone :: string

record row =
  row_user_id :: string
  row_username :: string
  row_phone :: string
  row_descriptors :: template

type_synonym db = "row list"

datatype enroll_outcome =
    ImageUnreadable          \<comment> \<open>"Image could not be read."\<close>
  | TooBlurry                \<comment> \<open>"Image too blurry. Please capture a clearer fingerprint."\<close>
  | NoFingerprintDetected    \<comment> \<open>"No fingerprint detected! Please place your finger properly."\<close>
  | NoDescriptorsFound       \<comment> \<open>"Fingerprint not detected."\<close>
  | AlreadyRegistered        \<comment> \<open>"User ID already registered."\<close>
  | Registered               \<comment> \<open>"Fingerprint registered successfully."\<close>

definition get_fingerprint_by_id :: "db \<Rightarrow> string \<Rightarrow> template option" where
  "get_fingerprint_by_id d user_id =
     (case find (\<lambda>r. row_user_id r = user_id) d of
        None \<Rightarrow> None
      | Some r \<Rightarrow> Some (row_descriptors r))"

text \<open>
  The INSERT raises \<open>sqlite3.IntegrityError\<close> when the UNIQUE column already holds
  \<open>user_id\<close>, and the table is then as before. The CSV backup thread and the branch
  for any other exception (the database file cannot be opened) are outside the model.
\<close>

definition save_fingerprint :: "db \<Rightarrow> string \<Rightarrow> template \<Rightarrow> enroll_outcome \<times> db" where
  "save_fingerprint d user_id data =
     (if \<exists>r \<in> set d. row_user_id r = user_id then (AlreadyRegistered, d)
      else (Registered,
            d @ [\<lparr>row_user_id = user_id, row_username = username data,
                  row_phone = phone data, row_descriptors = data\<rparr>]))"

definition update_fingerprint :: "db \<Rightarrow> string \<Rightarrow> string \<Rightarrow> string \<Rightarrow> db" where
  "update_fingerprint d user_id name ph =
     map (\<lambda>r. if row_user_id r = user_id then r\<lparr>row_username := name, row_phone := ph\<rparr> else r) d"

section \<open>Enrollment (register_fingerprint)\<close>

text \<open>
  The debug plot (\<open>show_visual\<close>) writes a picture and catches its own errors; it does
  not touch the result. The minutiae computed before it are overwritten by the ones of
  the thread pool, which are the same.
\<close>

definition register_fingerprint ::
    "'img cv \<Rightarrow> db \<Rightarrow> string \<Rightarrow> string \<Rightarrow> string \<Rightarrow> string \<Rightarrow> enroll_outcome \<times> db" where
  "register_fingerprint lib d image_path user_id name ph =
     (case imread lib image_path of
        None \<Rightarrow> (ImageUnreadable, d)
      | Some img \<Rightarrow>
          if is_image_blurry lib img then (TooBlurry, d)
          else if \<not> is_fingerprint_present lib image_path then (NoFingerprintDetected, d)
          else
            (let enhanced_image = enhance_fingerprint lib img;
                 minutiae_points = extract_minutiae lib enhanced_image
             in case orb_descriptors lib enhanced_image of
                  None \<Rightarrow> (NoDescriptorsFound, d)
                | Some descriptors \<Rightarrow>
                    if length descriptors = 0 then (NoDescriptorsFound, d)
                    else if get_fingerprint_by_id d user_id \<noteq> None then (AlreadyRegistered, d)
                    else save_fingerprint d user_id
                           \<lparr>orb = descriptors, minutiae = minutiae_points,
                            username = name, phone = ph\<rparr>))"

section \<open>Double-precision arithmetic\<close>

text \<open>
  The scores of the source are Python floats, IEEE 754 binary64. A finite double is a
  rational number, and each operation of the source returns the exact result rounded
  to the nearest double, ties to the even significand. \<open>rnd\<close> is this rounding with
  a significand of 53 bits. Overflow and subnormal results are not modelled: a value
  computed below from lists of fewer than \<open>2^63\<close> elements is 0 or lies between
  \<open>2^-70\<close> and \<open>2^14\<close>, far inside the normal range.
\<close>

type_synonym double = rat

text \<open>The exponent \<open>e\<close> with \<open>2^e \<le> p / q < 2^(e + 1)\<close>, for positive \<open>p\<close> and \<open>q\<close>.\<close>

definition expo :: "int \<Rightarrow> int \<Rightarrow> int" where
  "expo p q =
     (let b = bitlen p - bitlen q
      in if (2::rat) powi b * of_int q \<le> of_int p then b else b - 1)"

text \<open>Rounding to the nearest integer, a tie to the even one.\<close>

definition round_even :: "rat \<Rightarrow> int" where
  "round_even y =
     (let f = \<lfloor>y\<rfloor>; r = y - of_int f
      in if r < 1 / 2 then f else if r > 1 / 2 then f + 1 else if even f then f else f + 1)"

definition rnd_pos :: "rat \<Rightarrow> double" where
  "rnd_pos x =
     (case quotient_of x of (p, q) \<Rightarrow>
        (let u = (2::rat) powi (expo p q - 52) in of_int (round_even (x / u)) * u))"

definition rnd :: "rat \<Rightarrow> double" where
  "rnd x = (if x = 0 then 0 else if x > 0 then rnd_pos x else - rnd_pos (- x))"

text \<open>
  Float multiplication and addition, and \<open>/\<close> on two counts: Python rounds the
  exact quotient of two integers once, and numpy does the same for counts below
  \<open>2^53\<close>, which it converts without error.
\<close>

definition fmul :: "double \<Rightarrow> double \<Rightarrow> double" where
  "fmul x y = rnd (x * y)"

definition fadd :: "double \<Rightarrow> double \<Rightarrow> double" where
  "fadd x y = rnd (x + y)"

definition truediv :: "nat \<Rightarrow> nat \<Rightarrow> double" where
  "truediv k n = rnd (of_nat k / of_nat n)"

text \<open>The literals \<open>0.1\<close> and \<open>0.9\<close> of line 321: the doubles nearest to 1/10 and 9/10.\<close>

definition lit_0_1 :: double where
  "lit_0_1 = rnd (1 / 10)"

definition lit_0_9 :: double where
  "lit_0_9 = rnd (9 / 10)"

section \<open>Verification (verify_fingerprint)\<close>

text \<open>
  Scores are doubles, computed with the rounded operations above in the order of the
  source. \<open>MATCH_THRESHOLD\<close> is the constant of line 22; the integers 26, 45, 15, 100
  and 0 are doubles themselves.
\<close>

definition MATCH_THRESHOLD :: double where
  "MATCH_THRESHOLD = 26"

definition angles :: "int list" where
  "angles = [-10, -5, 0, 5, 10]"

text \<open>
  \<open>tree.query(minutiae_points, k=1, distance_upper_bound=6)\<close> on a \<open>cKDTree\<close> of the
  stored points: for each probe point the Euclidean distance to the nearest stored
  point, and infinity when no stored point is nearer than the bound (SciPy keeps a
  neighbour when its distance is strictly below \<open>distance_upper_bound\<close>). Coordinates
  are integers, so the model compares squared distances: \<open>None\<close> stands for infinity.
\<close>

definition sqdist :: "point \<Rightarrow> point \<Rightarrow> int" where
  "sqdist p q = (int (fst p) - int (fst q))\<^sup>2 + (int (snd p) - int (snd q))\<^sup>2"

fun nearest_sq :: "point list \<Rightarrow> point \<Rightarrow> int option" where
  "nearest_sq [] p = None"
| "nearest_sq (q # qs) p =
     (case nearest_sq qs p of
        None \<Rightarrow> Some (sqdist p q)
      | Some d \<Rightarrow> Some (min (sqdist p q) d))"

definition tree_query :: "point list \<Rightarrow> point \<Rightarrow> int option" where
  "tree_query stored_minutiae p =
     (case nearest_sq stored_minutiae p of
        None \<Rightarrow> None
      | Some d \<Rightarrow> if d < 6\<^sup>2 then Some d else None)"

text \<open>
  Lines 313-319: \<open>(matched_minutiae / max(...)) * 100\<close>, the quotient of the two
  counts rounded first and its product with 100 rounded again.
\<close>

definition accuracy_minutiae_of :: "point list \<Rightarrow> point list \<Rightarrow> double" where
  "accuracy_minutiae_of minutiae_points stored_minutiae =
     (if length minutiae_points > 0 \<and> length stored_minutiae > 0 then
        (let distances = map (tree_query stored_minutiae) minutiae_points;
             matched_minutiae = length (filter (\<lambda>d. d \<noteq> None) distances)
         in fmul (truediv matched_minutiae
                    (max (length minutiae_points) (length stored_minutiae))) 100)
      else 0)"

text \<open>Lines 310-311: \<open>(len(matches) / max(...)) * 100\<close>.\<close>

definition accuracy_orb_of :: "'img cv \<Rightarrow> descriptor list \<Rightarrow> descriptor list \<Rightarrow> double" where
  "accuracy_orb_of lib descriptors stored_desc =
     fmul (truediv (bf_matches lib descriptors stored_desc)
             (max (length descriptors) (length stored_desc))) 100"

text \<open>Line 321: \<open>(accuracy_orb * 0.1) + (accuracy_minutiae * 0.9)\<close>, three rounded operations.\<close>

definition final_score_of :: "double \<Rightarrow> double \<Rightarrow> double" where
  "final_score_of accuracy_orb accuracy_minutiae =
     fadd (fmul accuracy_orb lit_0_1) (fmul accuracy_minutiae lit_0_9)"

text \<open>
  Lines 296-319 for one angle: \<open>None\<close> is the \<open>continue\<close> of line 308, otherwise the
  pair (accuracy_orb, accuracy_minutiae).
\<close>

definition score_hypothesis :: "'img cv \<Rightarrow> template \<Rightarrow> 'img \<Rightarrow> int \<Rightarrow> (double \<times> double) option" where
  "score_hypothesis lib stored base_image angle =
     (let rotated = rotate_image lib base_image angle;
          enhanced_image = enhance_fingerprint lib rotated;
          minutiae_points = extract_minutiae lib enhanced_image
      in case orb_descriptors lib enhanced_image of
           None \<Rightarrow> None
         | Some descriptors \<Rightarrow>
             if length descriptors = 0 then None
             else Some (accuracy_orb_of lib descriptors (orb stored),
                        accuracy_minutiae_of minutiae_points (minutiae stored)))"

record best =
  best_final_score :: double
  best_orb_score :: double
  best_minutiae_score :: double

definition best_init :: best where
  "best_init = \<lparr>best_final_score = 0, best_orb_score = 0, best_minutiae_score = 0\<rparr>"

text \<open>Lines 321-328 on the three running values.\<close>

definition update_best :: "best \<Rightarrow> (double \<times> double) option \<Rightarrow> best" where
  "update_best b h =
     (case h of
        None \<Rightarrow> b
      | Some (accuracy_orb, accuracy_minutiae) \<Rightarrow>
          (let final_score = final_score_of accuracy_orb accuracy_minutiae
           in if final_score > best_final_score b
              then \<lparr>best_final_score = final_score, best_orb_score = accuracy_orb,
                    best_minutiae_score = accuracy_minutiae\<rparr>
              else b))"

text \<open>The \<open>for angle in angles\<close> loop from a given state of the running values.\<close>

fun match_loop :: "'img cv \<Rightarrow> template \<Rightarrow> 'img \<Rightarrow> int list \<Rightarrow> best \<Rightarrow> best" where
  "match_loop lib stored base_image [] b = b"
| "match_loop lib stored base_image (angle # rest) b =
     match_loop lib stored base_image rest
       (update_best b (score_hypothesis lib stored base_image angle))"

datatype status = Error | Blurry | No_fingerprint | No_user | Match_found | No_match

record match_result =
  status :: status
  is_match :: bool
  accuracy :: double
  orb_score :: double
  minutiae_score :: double
  matched_username :: "string option"
  message :: string

definition early_return :: "status \<Rightarrow> string \<Rightarrow> match_result" where
  "early_return s msg =
     \<lparr>status = s, is_match = False, accuracy = 0, orb_score = 0, minutiae_score = 0,
      matched_username = None, message = msg\<rparr>"

definition verify_fingerprint :: "'img cv \<Rightarrow> db \<Rightarrow> string \<Rightarrow> string \<Rightarrow> match_result" where
  "verify_fingerprint lib d image_path user_id =
     (case imread lib image_path of
        None \<Rightarrow> early_return Error ''Invalid image file.''
      | Some base_image \<Rightarrow>
          if is_image_blurry lib base_image
          then early_return Blurry ''Fingerprint image is too blurry.''
          else if \<not> is_fingerprint_present lib image_path
          then early_return No_fingerprint ''No fingerprint detected. Please try again.''
          else
            (case get_fingerprint_by_id d user_id of
               None \<Rightarrow> early_return No_user ''No fingerprint data found for this user ID.''
             | Some stored \<Rightarrow>
                 (let b = match_loop lib stored base_image angles best_init;
                      m = (best_final_score b \<ge> MATCH_THRESHOLD \<or>
                           (best_orb_score b > 45 \<and> best_minutiae_score b > 15))
                  in \<lparr>status = (if m then Match_found else No_match),
                      is_match = m,
                      accuracy = best_final_score b,
                      orb_score = best_orb_score b,
                      minutiae_score = best_minutiae_score b,
                      matched_username = Some (username stored),
                      message = (if m then ''Match found'' else ''No match found'')\<rparr>)))"

text \<open>
  The verification is said to reach the hypothesis loop with the image and the stored
  template when none of the four early returns is taken.
\<close>

definition reaches_loop :: "'img cv \<Rightarrow> db \<Rightarrow> string \<Rightarrow> string \<Rightarrow> 'img \<Rightarrow> template \<Rightarrow> bool" where
  "reaches_loop lib d image_path user_id base_image stored =
     (imread lib image_path = Some base_image \<and> \<not> is_image_blurry lib base_image \<and>
      is_fingerprint_present lib image_path \<and> get_fingerprint_by_id d user_id = Some stored)"

text \<open>The image passes the quality gate of both entry points.\<close>

definition passes_gate :: "'img cv \<Rightarrow> string \<Rightarrow> 'img \<Rightarrow> bool" where
  "passes_gate lib image_path img =
     (imread lib image_path = Some img \<and> \<not> is_image_blurry lib img \<and>
      is_fingerprint_present lib image_path)"

text \<open>The Euclidean distance of the claim about the minutiae score.\<close>

definition dist2 :: "point \<Rightarrow> point \<Rightarrow> real" where
  "dist2 p q = sqrt ((real (fst p) - real (fst q))\<^sup>2 + (real (snd p) - real (snd q))\<^sup>2)"

definition within_radius :: "point list \<Rightarrow> point \<Rightarrow> bool" where
  "within_radius stored_minutiae p = (\<exists>q \<in> set stored_minutiae. dist2 p q < 6)"

section \<open>A stand-in library for concrete runs\<close>

text \<open>
  An image of the stand-in is a pixel grid together with the angle it has been rotated
  by. Rotation adds to the angle and leaves the grid alone, enhancement does nothing;
  the files, the Laplacian variance, the descriptors and the skeleton of an image are
  given; every file that can be read shows one large contour; the matcher pairs the
  two descriptor lists up to the shorter one.
\<close>

type_synonym tilted = "image \<times> int"

definition stub_lib ::
    "(string \<Rightarrow> image option) \<Rightarrow> real \<Rightarrow> (tilted \<Rightarrow> descriptor list option) \<Rightarrow>
     (tilted \<Rightarrow> image) \<Rightarrow> tilted cv" where
  "stub_lib files lap descs thin =
     \<lparr>imread = (\<lambda>p. map_option (\<lambda>g. (g, 0)) (files p)),
      laplacian_var = (\<lambda>_. lap),
      large_contours = (\<lambda>p. map_option (\<lambda>_. 1) (files p)),
      rotate_image = (\<lambda>img a. (fst img, snd img + a)),
      enhance_fingerprint = (\<lambda>img. img),
      skeletonize = thin,
      orb_descriptors = descs,
      bf_matches = (\<lambda>a b. min (length a) (length b))\<rparr>"

definition one_file :: "string \<Rightarrow> image \<Rightarrow> string \<Rightarrow> image option" where
  "one_file name img p = (if p = name then Some img else None)"

text \<open>A sharp ridge image with two descriptors at every angle.\<close>

definition sharp_lib :: "tilted cv" where
  "sharp_lib = stub_lib (one_file ''finger.png'' ex_skeleton) 120 (\<lambda>_. Some [[1, 2], [3, 4]]) fst"

text \<open>The same file with a Laplacian variance below the blur threshold.\<close>

definition blurry_lib :: "tilted cv" where
  "blurry_lib = stub_lib (one_file ''finger.png'' ex_skeleton) 2 (\<lambda>_. Some [[1, 2], [3, 4]]) fst"

text \<open>The same file, on which the detector finds no descriptor.\<close>

definition featureless_lib :: "tilted cv" where
  "featureless_lib = stub_lib (one_file ''finger.png'' ex_skeleton) 120 (\<lambda>_. Some []) fst"

text \<open>A sharp image whose skeleton is the lone stub: descriptors, but no minutia.\<close>

definition sparse_lib :: "tilted cv" where
  "sparse_lib = stub_lib (one_file ''finger.png'' ex_stub) 120 (\<lambda>_. Some [[1, 2], [3, 4]]) fst"

text \<open>
  A probe whose features change with the angle: one descriptor and the full skeleton
  at -10 and +5 degrees, no descriptor array at -5, two descriptors but the skeleton of
  the stub at 0, and an empty descriptor array at +10.
\<close>

definition tilt_descs :: "tilted \<Rightarrow> descriptor list option" where
  "tilt_descs img =
     (if snd img = -10 then Some [[1, 2]]
      else if snd img = -5 then None
      else if snd img = 0 then Some [[1, 2], [3, 4]]
      else if snd img = 5 then Some [[5, 6]]
      else Some [])"

definition tilt_thin :: "tilted \<Rightarrow> image" where
  "tilt_thin img = (if snd img = 0 then ex_stub else fst img)"

definition tilt_lib :: "tilted cv" where
  "tilt_lib = stub_lib (one_file ''finger.png'' ex_skeleton) 120 tilt_descs tilt_thin"

definition u1_template :: template where
  "u1_template = \<lparr>orb = [[1, 2], [3, 4]], minutiae = scan_minutiae ex_skeleton,
                  username = ''alice'', phone = ''555''\<rparr>"

definition u1_db :: db where
  "u1_db = [\<lparr>row_user_id = ''u1'', row_username = ''alice'', row_phone = ''555'',
             row_descriptors = u1_template\<rparr>]"

text \<open>
  A probe on the decision boundary: two parallel ridges (four endings), one descriptor
  at every angle, against a template of five descriptors and fifteen minutiae of which
  two lie at ridge ends of the probe.
\<close>

definition ex_rails :: image where
  "ex_rails = [blank_row, ridge_row, blank_row, ridge_row, blank_row]"

definition rails_lib :: "tilted cv" where
  "rails_lib = stub_lib (one_file ''finger.png'' ex_rails) 120 (\<lambda>_. Some [[1, 2]]) fst"

definition u2_template :: template where
  "u2_template = \<lparr>orb = [[1, 2], [3, 4], [5, 6], [7, 8], [9, 10]],
                  minutiae = [(1, 1), (1, 11)] @ replicate 13 (60, 60),
                  username = ''bob'', phone = ''777''\<rparr>"

definition u2_db :: db where
  "u2_db = [\<lparr>row_user_id = ''u2'', row_username = ''bob'', row_phone = ''777'',
             row_descriptors = u2_template\<rparr>]"

text \<open>
  The same probe against a template of 35 descriptors and seven minutiae, one of them
  at a ridge end of the probe: one descriptor in 35 and two minutiae in seven match.
\<close>

definition u3_template :: template where
  "u3_template = \<lparr>orb = replicate 35 [0, 0],
                  minutiae = (1, 1) # replicate 6 (60, 60),
                  username = ''carol'', phone = ''888''\<rparr>"

definition u3_db :: db where
  "u3_db = [\<lparr>row_user_id = ''u3'', row_username = ''carol'', row_phone = ''888'',
             row_descriptors = u3_template\<rparr>]"

text \<open>
  A probe with eleven descriptors and the skeleton of the stub at -10 degrees, two
  descriptors and the two ridges at -5 degrees, and no descriptor array at the other
  angles, against a template of eleven descriptors and 22 minutiae of which one lies at
  a ridge end.
\<close>

definition drift_descs :: "tilted \<Rightarrow> descriptor list option" where
  "drift_descs img =
     (if snd img = -10 then Some (replicate 11 [0, 0])
      else if snd img = -5 then Some [[1, 2], [3, 4]]
      else None)"

definition drift_thin :: "tilted \<Rightarrow> image" where
  "drift_thin img = (if snd img = -10 then ex_stub else fst img)"

definition drift_lib :: "tilted cv" where
  "drift_lib = stub_lib (one_file ''finger.png'' ex_rails) 120 drift_descs drift_thin"

definition u4_template :: template where
  "u4_template = \<lparr>orb = replicate 11 [0, 0],
                  minutiae = (1, 1) # replicate 21 (60, 60),
                  username = ''dave'', phone = ''999''\<rparr>"

definition u4_db :: db where
  "u4_db = [\<lparr>row_user_id = ''u4'', row_username = ''dave'', row_phone = ''999'',
             row_descriptors = u4_template\<rparr>]"

section \<open>Properties of the minutiae scan\<close>

lemma slice_nth: "slice a b xs = map ((!) xs) [a ..< min b (length xs)]"
proof (rule nth_equalityI)
  show "length (slice a b xs) = length (map ((!) xs) [a ..< min b (length xs)])"
    by (auto simp: slice_def)
next
  fix k assume "k < length (slice a b xs)"
  then have k: "k < b - a" "a + k < length xs" by (auto simp: slice_def)
  then have "[a ..< min b (length xs)] ! k = a + k" by (intro nth_upt) auto
  with k show "slice a b xs ! k = map ((!) xs) [a ..< min b (length xs)] ! k"
    by (simp add: slice_def)
qed

lemma filter_count_on: "length (filter (\<lambda>b. r ! b = (255::pixel)) ks) = sum_list (map (\<lambda>b. if r ! b = 255 then 1 else 0) ks)"
  by (induction ks) auto

lemma rect_row: "rect img \<Longrightarrow> a < rows img \<Longrightarrow> length (img ! a) = cols img"
  by (simp add: rect_def rows_def list_all_length)

lemma count_on_slice2:
  assumes "rect img"
  shows "count_on (slice2 r0 r1 c0 c1 img) =
     sum_list (map (\<lambda>a. sum_list (map (\<lambda>b. on img a b) [c0 ..< min c1 (cols img)]))
                   [r0 ..< min r1 (rows img)])"
proof -
  have "\<And>a. a \<in> set [r0 ..< min r1 (rows img)] \<Longrightarrow>
      length (filter (\<lambda>p. p = 255) (slice c0 c1 (img ! a))) =
      sum_list (map (\<lambda>b. on img a b) [c0 ..< min c1 (cols img)])"
    using assms by (simp add: slice_nth filter_map comp_def filter_count_on rect_row on_def)
  then show ?thesis
    unfolding count_on_def slice2_def slice_nth[of r0 r1 img] rows_def[symmetric] map_map comp_def
    by (intro arg_cong[where f=sum_list] map_cong) (auto simp: rows_def)
qed

lemma density_window11: "rect img \<Longrightarrow> density img i j = window11 img i j"
  by (simp add: density_def window11_def count_on_slice2)

lemma upt3: "1 \<le> i \<Longrightarrow> [i - 1 ..< i + 2] = [i - 1, i, i + 1]"
proof -
  assume a: "1 \<le> i"
  then have "i + 2 = Suc (Suc (Suc (i - 1)))" by simp
  then show ?thesis using a by (simp add: upt_rec)
qed

lemma window3:
  assumes "rect img" "interior img i j"
  shows "count_on (slice2 (i - 1) (i + 2) (j - 1) (j + 2) img) = on img i j + neighbours8 img i j"
proof -
  from assms(2) have m: "min (i + 2) (rows img) = i + 2" "min (j + 2) (cols img) = j + 2"
    and p: "1 \<le> i" "1 \<le> j"
    by (auto simp: interior_def)
  show ?thesis
    unfolding count_on_slice2[OF assms(1)] m upt3[OF p(1)] upt3[OF p(2)] neighbours8_def
    by simp
qed


lemma set_scan_indices: "set (scan_indices img) = {(i, j). interior img i j}"
proof -
  have "(i, j) \<in> set (scan_indices img) \<longleftrightarrow> interior img i j" for i j
    unfolding scan_indices_def interior_def by (simp add: image_iff) linarith
  then show ?thesis by auto
qed

lemma scan_step_kept:
  "scan_step img (es, bs) ij =
     (if kept img Ending ij then es @ [ij] else es, if kept img Bifurcation ij then bs @ [ij] else bs)"
  by (cases ij) (auto simp: scan_step_def kept_def split: option.splits minutiae_type.splits)

lemma foldl_scan_step:
  "foldl (scan_step img) (es, bs) ps = (es @ filter (kept img Ending) ps, bs @ filter (kept img Bifurcation) ps)"
  by (induction ps arbitrary: es bs) (simp_all add: scan_step_kept)

lemma scan_lists_filter:
  "scan_lists img = (filter (kept img Ending) (scan_indices img), filter (kept img Bifurcation) (scan_indices img))"
  by (simp add: scan_lists_def foldl_scan_step)

lemma classify_neighbours:
  assumes "rect img" "interior img i j" "img ! i ! j = 255"
  shows "classify img i j =
     (if neighbours8 img i j = 1 then Some Ending
      else if neighbours8 img i j \<ge> 3 then Some Bifurcation else None)"
proof -
  have "crossing_count img i j = int (neighbours8 img i j)"
    unfolding crossing_count_def window3[OF assms(1,2)] using assms(3) by (simp add: on_def)
  then show ?thesis using assms(3) by (simp add: classify_def)
qed

lemma in_scan_minutiae:
  "(i, j) \<in> set (scan_minutiae img) \<longleftrightarrow>
     interior img i j \<and> classify img i j \<noteq> None \<and> \<not> (USE_MINUTIAE_FILTERING \<and> density img i j < 10)"
proof -
  have "(\<exists>t. classify img i j = Some t) \<longleftrightarrow> (classify img i j = Some Ending \<or> classify img i j = Some Bifurcation)"
    by (metis minutiae_type.exhaust)
  then show ?thesis
    by (auto simp: scan_minutiae_def scan_lists_filter set_scan_indices kept_def)
qed

lemmas scan_eval = scan_lists_def scan_indices_def scan_step_def classify_def crossing_count_def
  density_def slice2_def slice_def count_on_def rows_def cols_def USE_MINUTIAE_FILTERING_def
  ex_skeleton_def ridge_row_def blank_row_def joint_row_def ex_stub_def

lemma scan_lists_ex_skeleton:
  "scan_lists ex_skeleton =
     ([(1, 1), (1, 11), (3, 1), (3, 11)], [(1, 5), (1, 6), (1, 7), (2, 6), (3, 5), (3, 6), (3, 7)])"
  by (simp add: scan_eval upt_rec)

lemma scan_lists_ex_stub: "scan_lists ex_stub = ([], [])"
  by (simp add: scan_eval upt_rec)

lemma rect_examples: "rect ex_skeleton \<and> rect ex_stub"
  by (simp add: rect_def scan_eval)

lemma window11_examples: "window11 ex_skeleton 1 1 = 13 \<and> window11 ex_stub 2 2 = 2"
  by (simp add: window11_def on_def scan_eval upt_rec)

lemma classify_examples:
  "classify ex_skeleton 1 1 = Some Ending \<and> classify ex_skeleton 2 6 = Some Bifurcation \<and>
   classify ex_stub 2 2 = Some Ending"
  by (simp add: scan_eval)

lemma neighbours8_examples:
  "neighbours8 ex_skeleton 1 1 = 1 \<and> neighbours8 ex_skeleton 2 6 = 6 \<and> neighbours8 ex_skeleton 1 2 = 2"
  by (simp add: neighbours8_def on_def scan_eval)

lemma interior_examples:
  "interior ex_skeleton 1 1 \<and> interior ex_skeleton 2 6 \<and> interior ex_skeleton 1 2 \<and>
   \<not> interior ex_skeleton 0 3 \<and> interior ex_stub 2 2"
  by (simp add: interior_def scan_eval)

text \<open>
  C5. On a rectangular skeleton, an interior pixel that is on is classified by the
  number of on pixels among its eight neighbours alone: exactly one makes it a ridge
  ending, three or more a bifurcation, and zero or two nothing. The endings list and the
  bifurcations list of the scan hold only interior on pixels with such a count, and no
  pixel of the outer frame (nor any position outside the image) is ever returned.
\<close>

theorem minutiae_classification_by_neighbour_count:
  "rect skeleton_img \<Longrightarrow>
     (interior skeleton_img i j \<and> skeleton_img ! i ! j = 255 \<longrightarrow>
        classify skeleton_img i j =
          (if neighbours8 skeleton_img i j = 1 then Some Ending
           else if neighbours8 skeleton_img i j \<ge> 3 then Some Bifurcation
           else None)) \<and>
     ((i, j) \<in> set (fst (scan_lists skeleton_img)) \<longrightarrow>
        interior skeleton_img i j \<and> skeleton_img ! i ! j = 255 \<and> neighbours8 skeleton_img i j = 1) \<and>
     ((i, j) \<in> set (snd (scan_lists skeleton_img)) \<longrightarrow>
        interior skeleton_img i j \<and> skeleton_img ! i ! j = 255 \<and> neighbours8 skeleton_img i j \<ge> 3) \<and>
     (\<not> interior skeleton_img i j \<longrightarrow> (i, j) \<notin> set (scan_minutiae skeleton_img))"
proof -
  assume r: "rect skeleton_img"
  have on_pixel: "skeleton_img ! i ! j = 255" if "classify skeleton_img i j = Some t" for t
    using that by (simp add: classify_def split: if_splits)
  have cl: "classify skeleton_img i j =
          (if neighbours8 skeleton_img i j = 1 then Some Ending
           else if neighbours8 skeleton_img i j \<ge> 3 then Some Bifurcation
           else None)"
    if "interior skeleton_img i j" "skeleton_img ! i ! j = 255"
    using classify_neighbours[OF r that] .
  have e: "interior skeleton_img i j \<and> skeleton_img ! i ! j = 255 \<and> neighbours8 skeleton_img i j = 1"
    if "(i, j) \<in> set (fst (scan_lists skeleton_img))"
  proof -
    from that have i: "interior skeleton_img i j" and c: "classify skeleton_img i j = Some Ending"
      by (auto simp: scan_lists_filter set_scan_indices kept_def)
    from cl[OF i on_pixel[OF c]] c show ?thesis
      using i on_pixel[OF c] by (auto split: if_splits)
  qed
  have b: "interior skeleton_img i j \<and> skeleton_img ! i ! j = 255 \<and> neighbours8 skeleton_img i j \<ge> 3"
    if "(i, j) \<in> set (snd (scan_lists skeleton_img))"
  proof -
    from that have i: "interior skeleton_img i j" and c: "classify skeleton_img i j = Some Bifurcation"
      by (auto simp: scan_lists_filter set_scan_indices kept_def)
    from cl[OF i on_pixel[OF c]] c show ?thesis
      using i on_pixel[OF c] by (auto split: if_splits)
  qed
  have f: "(i, j) \<notin> set (scan_minutiae skeleton_img)" if "\<not> interior skeleton_img i j"
    using that by (simp add: in_scan_minutiae)
  from cl e b f show ?thesis by blast
qed

theorem minutiae_classification_by_neighbour_count_witness:
  "rect ex_skeleton \<and>
   interior ex_skeleton 1 1 \<and> ex_skeleton ! 1 ! 1 = 255 \<and> neighbours8 ex_skeleton 1 1 = 1 \<and>
   classify ex_skeleton 1 1 = Some Ending \<and> (1, 1) \<in> set (fst (scan_lists ex_skeleton)) \<and>
   interior ex_skeleton 2 6 \<and> ex_skeleton ! 2 ! 6 = 255 \<and> neighbours8 ex_skeleton 2 6 \<ge> 3 \<and>
   classify ex_skeleton 2 6 = Some Bifurcation \<and> (2, 6) \<in> set (snd (scan_lists ex_skeleton)) \<and>
   interior ex_skeleton 1 2 \<and> ex_skeleton ! 1 ! 2 = 255 \<and> neighbours8 ex_skeleton 1 2 = 2 \<and>
   classify ex_skeleton 1 2 = None \<and>
   \<not> interior ex_skeleton 0 3 \<and> (0, 3) \<notin> set (scan_minutiae ex_skeleton)"
proof -
  have r: "rect ex_skeleton" using rect_examples by simp
  have px: "ex_skeleton ! 1 ! 1 = 255 \<and> ex_skeleton ! 2 ! 6 = 255 \<and> ex_skeleton ! 1 ! 2 = 255"
    by (simp add: scan_eval)
  have m: "(1, 1) \<in> set (fst (scan_lists ex_skeleton)) \<and> (2, 6) \<in> set (snd (scan_lists ex_skeleton))"
    by (simp add: scan_lists_ex_skeleton)
  show ?thesis
    using minutiae_classification_by_neighbour_count[OF r, of 1 1]
      minutiae_classification_by_neighbour_count[OF r, of 2 6]
      minutiae_classification_by_neighbour_count[OF r, of 1 2]
      minutiae_classification_by_neighbour_count[OF r, of 0 3]
      r px m interior_examples neighbours8_examples
    by simp
qed

text \<open>
  C6. With the noise filter on (the default), a candidate at an interior position, that
  is a pixel the crossing count classifies as ending or bifurcation, is in the returned
  set exactly when the number of on pixels in the 11x11 window centred on it, cut at the
  borders of the image, is at least 10; below 10 it is dropped.
\<close>

theorem density_filter_keeps_dense_candidates:
  "USE_MINUTIAE_FILTERING \<and>
   (rect skeleton_img \<longrightarrow> interior skeleton_img i j \<longrightarrow> classify skeleton_img i j \<noteq> None \<longrightarrow>
      ((i, j) \<in> set (scan_minutiae skeleton_img) \<longleftrightarrow> \<not> window11 skeleton_img i j < 10))"
  by (simp add: in_scan_minutiae density_window11 USE_MINUTIAE_FILTERING_def)

theorem density_filter_keeps_dense_candidates_witness:
  "rect ex_skeleton \<and> interior ex_skeleton 1 1 \<and> classify ex_skeleton 1 1 \<noteq> None \<and>
   \<not> window11 ex_skeleton 1 1 < 10 \<and> (1, 1) \<in> set (scan_minutiae ex_skeleton) \<and>
   rect ex_stub \<and> interior ex_stub 2 2 \<and> classify ex_stub 2 2 \<noteq> None \<and>
   window11 ex_stub 2 2 < 10 \<and> (2, 2) \<notin> set (scan_minutiae ex_stub)"
  using density_filter_keeps_dense_candidates[of ex_skeleton 1 1]
    density_filter_keeps_dense_candidates[of ex_stub 2 2]
    rect_examples interior_examples classify_examples window11_examples
  by simp

section \<open>Properties of the rounding\<close>

lemma round_even_ge: "of_int k \<le> y \<Longrightarrow> k \<le> round_even y"
proof -
  assume "of_int k \<le> y"
  then have "k \<le> \<lfloor>y\<rfloor>" by (simp add: le_floor_iff)
  then show ?thesis by (auto simp: round_even_def Let_def)
qed

lemma round_even_le: "y \<le> of_int k \<Longrightarrow> round_even y \<le> k"
proof (cases "y = of_int k")
  case True
  then show ?thesis by (simp add: round_even_def)
next
  case False
  assume "y \<le> of_int k"
  with False have "y < of_int k" by simp
  then have "\<lfloor>y\<rfloor> < k" by (simp add: floor_less_iff)
  then show ?thesis by (auto simp: round_even_def Let_def)
qed

lemma round_even_mono: "a \<le> b \<Longrightarrow> round_even a \<le> round_even b"
proof (cases "\<lfloor>a\<rfloor> = \<lfloor>b\<rfloor>")
  case True
  assume "a \<le> b"
  then have "a - of_int \<lfloor>b\<rfloor> \<le> b - of_int \<lfloor>b\<rfloor>" by simp
  then show ?thesis unfolding round_even_def Let_def True by auto
next
  case False
  assume ab: "a \<le> b"
  then have "\<lfloor>a\<rfloor> \<le> \<lfloor>b\<rfloor>" by (rule floor_mono)
  with False have "\<lfloor>a\<rfloor> + 1 \<le> \<lfloor>b\<rfloor>" by simp
  moreover have "round_even a \<le> \<lfloor>a\<rfloor> + 1" by (auto simp: round_even_def Let_def)
  moreover have "\<lfloor>b\<rfloor> \<le> round_even b" by (auto simp: round_even_def Let_def)
  ultimately show ?thesis by linarith
qed

lemma expo_bounds:
  assumes "0 < p" "0 < q"
  shows "(2::rat) powi expo p q \<le> of_int p / of_int q \<and>
         of_int p / of_int q < (2::rat) powi (expo p q + 1)"
proof -
  let ?b = "bitlen p - bitlen q"
  have q: "(0::rat) < of_int q" using assms by simp
  from bitlen_bounds[OF assms(1)]
  have "(2::int) ^ nat (bitlen p - 1) \<le> p" "p < (2::int) ^ nat (bitlen p)" by simp_all
  then have "(of_int ((2::int) ^ nat (bitlen p - 1)) :: rat) \<le> of_int p"
    "(of_int p :: rat) < of_int ((2::int) ^ nat (bitlen p))"
    by (simp_all only: of_int_le_iff of_int_less_iff)
  moreover have "1 \<le> bitlen p" using assms(1) by (auto simp: bitlen_alt_def)
  ultimately have p: "(2::rat) powi (bitlen p - 1) \<le> of_int p" "(of_int p :: rat) < 2 powi bitlen p"
    by (simp_all add: power_int_def)
  from bitlen_bounds[OF assms(2)]
  have "(2::int) ^ nat (bitlen q - 1) \<le> q" "q < (2::int) ^ nat (bitlen q)" by simp_all
  then have "(of_int ((2::int) ^ nat (bitlen q - 1)) :: rat) \<le> of_int q"
    "(of_int q :: rat) < of_int ((2::int) ^ nat (bitlen q))"
    by (simp_all only: of_int_le_iff of_int_less_iff)
  moreover have "1 \<le> bitlen q" using assms(2) by (auto simp: bitlen_alt_def)
  ultimately have qb: "(2::rat) powi (bitlen q - 1) \<le> of_int q" "(of_int q :: rat) < 2 powi bitlen q"
    by (simp_all add: power_int_def)
  have up: "(of_int p :: rat) < 2 powi (?b + 1) * of_int q"
  proof -
    have "(2::rat) powi (?b + 1) * 2 powi (bitlen q - 1) = 2 powi bitlen p"
      by (simp flip: power_int_add)
    moreover have "(2::rat) powi (?b + 1) * 2 powi (bitlen q - 1) \<le> 2 powi (?b + 1) * of_int q"
      using qb(1) by (intro mult_left_mono) simp_all
    ultimately show ?thesis using p(2) by linarith
  qed
  have low: "(2::rat) powi (?b - 1) * of_int q \<le> of_int p"
  proof -
    have "(2::rat) powi (?b - 1) * 2 powi bitlen q = 2 powi (bitlen p - 1)"
      by (simp flip: power_int_add)
    moreover have "(2::rat) powi (?b - 1) * of_int q \<le> 2 powi (?b - 1) * 2 powi bitlen q"
      using qb(2) by (intro mult_left_mono) simp_all
    ultimately show ?thesis using p(1) by linarith
  qed
  show ?thesis
  proof (cases "(2::rat) powi ?b * of_int q \<le> of_int p")
    case True
    then have e: "expo p q = ?b" by (simp add: expo_def)
    show ?thesis unfolding e using True up q by (simp add: field_simps)
  next
    case False
    then have e: "expo p q = ?b - 1" by (simp add: expo_def)
    from False have "(of_int p :: rat) < 2 powi ?b * of_int q" by simp
    then show ?thesis unfolding e using low q by (simp add: field_simps)
  qed
qed

text \<open>The exponent of a positive rational.\<close>

lemma exponent_bounds:
  assumes "0 < x" "quotient_of x = (p, q)"
  shows "(2::rat) powi expo p q \<le> x \<and> x < (2::rat) powi (expo p q + 1)"
proof -
  have q: "0 < q" using assms(2) by (rule quotient_of_denom_pos)
  have x: "x = of_int p / of_int q" using assms(2) by (rule quotient_of_div)
  have "0 < p"
  proof (rule ccontr)
    assume "\<not> 0 < p"
    then have "(of_int p :: rat) \<le> 0" by simp
    then have "x \<le> 0" unfolding x using q by (simp add: divide_le_0_iff)
    with assms(1) show False by simp
  qed
  from expo_bounds[OF this q] show ?thesis unfolding x .
qed

lemma rnd_pos_bounds:
  assumes "0 < x" "quotient_of x = (p, q)"
  shows "(2::rat) powi expo p q \<le> rnd_pos x \<and> rnd_pos x \<le> (2::rat) powi (expo p q + 1)"
proof -
  let ?e = "expo p q"
  let ?u = "(2::rat) powi (?e - 52)"
  have u: "0 < ?u" by simp
  have r: "rnd_pos x = of_int (round_even (x / ?u)) * ?u"
    by (simp add: rnd_pos_def assms(2) Let_def)
  from exponent_bounds[OF assms] have b: "2 powi ?e \<le> x" "x < 2 powi (?e + 1)" by simp_all
  have lo: "(2::rat) powi ?e = of_int (2 ^ 52) * ?u"
  proof -
    have "(2::rat) powi (52 + (?e - 52)) = 2 powi 52 * 2 powi (?e - 52)"
      by (rule power_int_add) simp
    then show ?thesis by simp
  qed
  have hi: "(2::rat) powi (?e + 1) = of_int (2 ^ 53) * ?u"
  proof -
    have "(2::rat) powi (53 + (?e - 52)) = 2 powi 53 * 2 powi (?e - 52)"
      by (rule power_int_add) simp
    moreover have "53 + (?e - 52) = ?e + 1" by simp
    ultimately show ?thesis by simp
  qed
  have "of_int (2 ^ 52) \<le> x / ?u" using b(1) u unfolding lo by (simp add: field_simps)
  then have "2 ^ 52 \<le> round_even (x / ?u)" by (rule round_even_ge)
  then have "(of_int (2 ^ 52) :: rat) \<le> of_int (round_even (x / ?u))" by (simp only: of_int_le_iff)
  then have l: "of_int (2 ^ 52) * ?u \<le> of_int (round_even (x / ?u)) * ?u"
    using u by (intro mult_right_mono) simp_all
  have "x / ?u \<le> of_int (2 ^ 53)" using b(2) u unfolding hi by (simp add: field_simps)
  then have "round_even (x / ?u) \<le> 2 ^ 53" by (rule round_even_le)
  then have "(of_int (round_even (x / ?u)) :: rat) \<le> of_int (2 ^ 53)" by (simp only: of_int_le_iff)
  then have h: "of_int (round_even (x / ?u)) * ?u \<le> of_int (2 ^ 53) * ?u"
    using u by (intro mult_right_mono) simp_all
  from l h show ?thesis unfolding r lo hi by simp
qed

lemma rnd_pos_positive: "0 < x \<Longrightarrow> 0 < rnd_pos x"
proof -
  assume x: "0 < x"
  obtain p q where pq: "quotient_of x = (p, q)" by (cases "quotient_of x")
  from rnd_pos_bounds[OF x pq] have "(2::rat) powi expo p q \<le> rnd_pos x" by simp
  moreover have "(0::rat) < 2 powi expo p q" by simp
  ultimately show ?thesis by linarith
qed

lemma rnd_pos_mono:
  assumes "0 < x" "x \<le> y"
  shows "rnd_pos x \<le> rnd_pos y"
proof -
  have y: "0 < y" using assms by simp
  obtain p q where pq: "quotient_of x = (p, q)" by (cases "quotient_of x")
  obtain p' q' where pq': "quotient_of y = (p', q')" by (cases "quotient_of y")
  let ?e = "expo p q" and ?e' = "expo p' q'"
  from exponent_bounds[OF assms(1) pq] exponent_bounds[OF y pq'] assms(2)
  have "(2::rat) powi ?e < 2 powi (?e' + 1)" by linarith
  then have le: "?e \<le> ?e'"
  proof -
    have "\<not> ?e' + 1 \<le> ?e"
    proof
      assume "?e' + 1 \<le> ?e"
      then have "(2::rat) powi (?e' + 1) \<le> 2 powi ?e" by (intro power_int_increasing) simp_all
      with \<open>(2::rat) powi ?e < 2 powi (?e' + 1)\<close> show False by simp
    qed
    then show ?thesis by simp
  qed
  show ?thesis
  proof (cases "?e = ?e'")
    case True
    let ?u = "(2::rat) powi (?e - 52)"
    have "x / ?u \<le> y / ?u" using assms(2) by (simp add: divide_right_mono)
    then have "round_even (x / ?u) \<le> round_even (y / ?u)" by (rule round_even_mono)
    then have "(of_int (round_even (x / ?u)) :: rat) \<le> of_int (round_even (y / ?u))"
      by (simp only: of_int_le_iff)
    then have "of_int (round_even (x / ?u)) * ?u \<le> of_int (round_even (y / ?u)) * ?u"
      by (intro mult_right_mono) simp_all
    then show ?thesis by (simp add: rnd_pos_def pq pq' Let_def True[symmetric])
  next
    case False
    with le have "?e + 1 \<le> ?e'" by simp
    then have "(2::rat) powi (?e + 1) \<le> 2 powi ?e'" by (intro power_int_increasing) simp_all
    with rnd_pos_bounds[OF assms(1) pq] rnd_pos_bounds[OF y pq'] show ?thesis by linarith
  qed
qed

lemma rnd_zero: "rnd 0 = 0"
  by (simp add: rnd_def)

lemma rnd_positive: "0 < x \<Longrightarrow> 0 < rnd x"
  by (simp add: rnd_def rnd_pos_positive)

lemma rnd_nonneg: "0 \<le> x \<Longrightarrow> 0 \<le> rnd x"
  using rnd_positive[of x] by (cases "x = 0") (simp_all add: rnd_zero less_imp_le)

text \<open>Rounding is monotone.\<close>

lemma rnd_mono: "x \<le> y \<Longrightarrow> rnd x \<le> rnd y"
proof -
  assume xy: "x \<le> y"
  consider "0 < x" | "x \<le> 0" "0 \<le> y" | "y < 0" by linarith
  then show ?thesis
  proof cases
    case 1
    then have "0 < y" using xy by simp
    with 1 rnd_pos_mono[OF 1 xy] show ?thesis by (simp add: rnd_def)
  next
    case 2
    have "rnd x \<le> 0"
      using 2(1) rnd_pos_positive[of "- x"] by (cases "x = 0") (simp_all add: rnd_def less_imp_le)
    moreover have "0 \<le> rnd y" using 2(2) by (rule rnd_nonneg)
    ultimately show ?thesis by simp
  next
    case 3
    then have "x < 0" using xy by simp
    have "rnd_pos (- y) \<le> rnd_pos (- x)" using 3 xy by (intro rnd_pos_mono) simp_all
    then show ?thesis using 3 \<open>x < 0\<close> by (simp add: rnd_def)
  qed
qed

subsection \<open>Evaluating a rounding\<close>

lemma round_even_near:
  assumes "\<bar>y - of_int m\<bar> < 1 / 2 \<or> (\<bar>y - of_int m\<bar> = 1 / 2 \<and> even m)"
  shows "round_even y = m"
proof (cases "of_int m \<le> y")
  case True
  with assms have "y < of_int m + 1" by linarith
  with True have f: "\<lfloor>y\<rfloor> = m" by (intro floor_unique) simp_all
  from assms True have "y - of_int m < 1 / 2 \<or> (y - of_int m = 1 / 2 \<and> even m)" by linarith
  then show ?thesis unfolding round_even_def Let_def f by auto
next
  case False
  then have lt: "y < of_int m" by simp
  with assms have "of_int (m - 1) \<le> y" by (simp add: abs_if split: if_splits) linarith+
  with lt have f: "\<lfloor>y\<rfloor> = m - 1" by (intro floor_unique) simp_all
  from assms lt have "y - of_int (m - 1) > 1 / 2 \<or> (y - of_int (m - 1) = 1 / 2 \<and> odd (m - 1))"
    by (simp add: abs_if split: if_splits) linarith+
  then show ?thesis unfolding round_even_def Let_def f by auto
qed

text \<open>
  The rounding of a positive \<open>x\<close>, from its exponent \<open>e\<close> and the integer \<open>m\<close>
  nearest to \<open>x / 2^(e - 52)\<close>.
\<close>

lemma rnd_eval:
  assumes "0 < x" "(2::rat) powi e \<le> x" "x < (2::rat) powi (e + 1)"
    and "\<bar>x / 2 powi (e - 52) - of_int m\<bar> < 1 / 2 \<or>
         (\<bar>x / 2 powi (e - 52) - of_int m\<bar> = 1 / 2 \<and> even m)"
    and "r = of_int m * 2 powi (e - 52)"
  shows "rnd x = r"
proof -
  obtain p q where pq: "quotient_of x = (p, q)" by (cases "quotient_of x")
  let ?E = "expo p q"
  from exponent_bounds[OF assms(1) pq] have b: "2 powi ?E \<le> x" "x < 2 powi (?E + 1)" by simp_all
  have "\<not> ?E + 1 \<le> e"
  proof
    assume "?E + 1 \<le> e"
    then have "(2::rat) powi (?E + 1) \<le> 2 powi e" by (intro power_int_increasing) simp_all
    with b(2) assms(2) show False by simp
  qed
  moreover have "\<not> e + 1 \<le> ?E"
  proof
    assume "e + 1 \<le> ?E"
    then have "(2::rat) powi (e + 1) \<le> 2 powi ?E" by (intro power_int_increasing) simp_all
    with b(1) assms(3) show False by simp
  qed
  ultimately have E: "?E = e" by simp
  have "rnd x = of_int (round_even (x / 2 powi (e - 52))) * 2 powi (e - 52)"
    using assms(1) by (simp add: rnd_def rnd_pos_def pq Let_def E)
  also have "round_even (x / 2 powi (e - 52)) = m" using assms(4) by (rule round_even_near)
  finally show ?thesis using assms(5) by simp
qed

lemma lit_0_1_value: "lit_0_1 = 3602879701896397 / 36028797018963968"
  unfolding lit_0_1_def by (rule rnd_eval[where e = "- 4" and m = "7205759403792794"]) simp_all

lemma lit_0_9_value: "lit_0_9 = 8106479329266893 / 9007199254740992"
  unfolding lit_0_9_def by (rule rnd_eval[where e = "- 1" and m = "8106479329266893"]) simp_all

lemma rnd_values:
  "rnd 1 = 1 \<and> rnd 100 = 100 \<and> rnd 90 = 90 \<and> rnd (100 * lit_0_9) = 90"
proof -
  have "rnd 1 = 1"
    by (rule rnd_eval[where e = "0" and m = "4503599627370496"]) simp_all
  moreover have "rnd 100 = 100"
    by (rule rnd_eval[where e = "6" and m = "7036874417766400"]) simp_all
  moreover have "rnd 90 = 90"
    by (rule rnd_eval[where e = "6" and m = "6333186975989760"]) simp_all
  moreover have "rnd (100 * lit_0_9) = 90"
    unfolding lit_0_9_value
    by (rule rnd_eval[where e = "6" and m = "6333186975989760"]) simp_all
  ultimately show ?thesis by simp
qed

section \<open>Properties of the scores and of the hypothesis loop\<close>

lemma percent_nonneg: "0 \<le> fmul (truediv k n) 100"
proof -
  have "0 \<le> truediv k n" unfolding truediv_def by (rule rnd_nonneg) simp
  then have "0 \<le> truediv k n * 100" by simp
  then show ?thesis unfolding fmul_def by (rule rnd_nonneg)
qed

lemma accuracy_orb_nonneg: "0 \<le> accuracy_orb_of lib ds sd"
  by (simp add: accuracy_orb_of_def percent_nonneg)

lemma accuracy_minutiae_nonneg: "0 \<le> accuracy_minutiae_of ps qs"
  by (simp add: accuracy_minutiae_of_def Let_def percent_nonneg)

lemma score_hypothesis_nonneg:
  "score_hypothesis lib stored base_image a = Some (x, y) \<Longrightarrow> 0 \<le> x \<and> 0 \<le> y"
  by (auto simp: score_hypothesis_def Let_def accuracy_orb_nonneg accuracy_minutiae_nonneg
      split: option.splits if_splits)

lemma literals_positive: "0 < lit_0_1 \<and> 0 < lit_0_9"
  by (simp add: lit_0_1_def lit_0_9_def rnd_positive)

lemma final_score_init: "final_score_of 0 0 = 0"
  by (simp add: final_score_of_def fadd_def fmul_def rnd_zero)

lemma final_score_zero:
  assumes "0 \<le> x" "0 \<le> y" "final_score_of x y \<le> 0"
  shows "x = 0 \<and> y = 0"
proof -
  let ?a = "fmul x lit_0_1" and ?b = "fmul y lit_0_9"
  have a: "0 \<le> ?a" unfolding fmul_def
    using assms(1) literals_positive by (intro rnd_nonneg) simp
  have b: "0 \<le> ?b" unfolding fmul_def
    using assms(2) literals_positive by (intro rnd_nonneg) simp
  have "\<not> 0 < ?a + ?b"
  proof
    assume "0 < ?a + ?b"
    then have "0 < rnd (?a + ?b)" by (rule rnd_positive)
    with assms(3) show False by (simp add: final_score_of_def fadd_def)
  qed
  with a b have z: "?a = 0" "?b = 0" by simp_all
  have "x = 0"
  proof (rule ccontr)
    assume "x \<noteq> 0"
    with assms(1) literals_positive have "0 < x * lit_0_1" by simp
    then have "0 < ?a" unfolding fmul_def by (rule rnd_positive)
    with z(1) show False by simp
  qed
  moreover have "y = 0"
  proof (rule ccontr)
    assume "y \<noteq> 0"
    with assms(2) literals_positive have "0 < y * lit_0_9" by simp
    then have "0 < ?b" unfolding fmul_def by (rule rnd_positive)
    with z(2) show False by simp
  qed
  ultimately show ?thesis by simp
qed

text \<open>With a minutiae score of 100 the fused score is at least 90.\<close>

lemma final_score_full_minutiae: "0 \<le> x \<Longrightarrow> 90 \<le> final_score_of x 100"
proof -
  assume x: "0 \<le> x"
  have "0 \<le> fmul x lit_0_1" unfolding fmul_def
    using x literals_positive by (intro rnd_nonneg) simp
  moreover have "fmul 100 lit_0_9 = 90" using rnd_values by (simp add: fmul_def)
  ultimately have "90 \<le> fmul x lit_0_1 + fmul 100 lit_0_9" by simp
  then have "rnd 90 \<le> rnd (fmul x lit_0_1 + fmul 100 lit_0_9)" by (rule rnd_mono)
  then show ?thesis using rnd_values by (simp add: final_score_of_def fadd_def)
qed

lemma match_loop_foldl:
  "match_loop lib stored base_image as b =
     foldl update_best b (map (score_hypothesis lib stored base_image) as)"
  by (induction as arbitrary: b) simp_all

text \<open>
  The state of the running values after any list of hypotheses: either nothing has
  beaten the initial zero, or the three values are those of the first hypothesis that
  attains the largest fused score.
\<close>

lemma foldl_update_best:
  "(foldl update_best best_init hs = best_init \<and>
      (\<forall>j < length hs. \<forall>x y. hs ! j = Some (x, y) \<longrightarrow> final_score_of x y \<le> 0)) \<or>
   (\<exists>i < length hs. \<exists>x y. hs ! i = Some (x, y) \<and> 0 < final_score_of x y \<and>
      foldl update_best best_init hs =
        \<lparr>best_final_score = final_score_of x y, best_orb_score = x, best_minutiae_score = y\<rparr> \<and>
      (\<forall>j < length hs. \<forall>x' y'. hs ! j = Some (x', y') \<longrightarrow>
         final_score_of x' y' \<le> final_score_of x y \<and>
         (j < i \<longrightarrow> final_score_of x' y' < final_score_of x y)))"
  (is "?Z hs \<or> ?W hs")
proof (induction hs rule: rev_induct)
  case Nil
  show ?case by simp
next
  case (snoc h hs)
  let ?b = "foldl update_best best_init hs"
  have step: "foldl update_best best_init (hs @ [h]) = update_best ?b h" by simp
  have old: "(hs @ [h]) ! j = hs ! j" if "j < length hs" for j
    using that by (simp add: nth_append)
  have new: "(hs @ [h]) ! length hs = h" by simp
  have idx: "j < length hs \<or> j = length hs" if "j < length (hs @ [h])" for j
    using that by auto
  show ?case
  proof (cases h)
    case None
    then have same: "foldl update_best best_init (hs @ [h]) = ?b"
      by (simp add: update_best_def)
    from snoc.IH show ?thesis
    proof
      assume z: "?Z hs"
      have "?Z (hs @ [h])"
        unfolding same using z None by (auto simp: nth_append less_Suc_eq)
      then show ?thesis ..
    next
      assume "?W hs"
      then obtain i x y where w: "i < length hs" "hs ! i = Some (x, y)" "0 < final_score_of x y"
        "?b = \<lparr>best_final_score = final_score_of x y, best_orb_score = x, best_minutiae_score = y\<rparr>"
        "\<forall>j < length hs. \<forall>x' y'. hs ! j = Some (x', y') \<longrightarrow>
           final_score_of x' y' \<le> final_score_of x y \<and>
           (j < i \<longrightarrow> final_score_of x' y' < final_score_of x y)"
        by blast
      have "i < length (hs @ [h])" using w(1) by simp
      moreover have "(hs @ [h]) ! i = Some (x, y)" using w(1,2) by (simp add: old)
      moreover have "\<forall>j < length (hs @ [h]). \<forall>x' y'. (hs @ [h]) ! j = Some (x', y') \<longrightarrow>
           final_score_of x' y' \<le> final_score_of x y \<and>
           (j < i \<longrightarrow> final_score_of x' y' < final_score_of x y)"
        using w(5) None by (auto simp: nth_append less_Suc_eq)
      ultimately have "?W (hs @ [h])"
        unfolding same using w(3,4) by blast
      then show ?thesis ..
    qed
  next
    case (Some p)
    obtain u v where p: "p = (u, v)" by (cases p)
    have h: "h = Some (u, v)" using Some p by simp
    have bound: "\<forall>j < length hs. \<forall>x' y'. hs ! j = Some (x', y') \<longrightarrow>
        final_score_of x' y' \<le> best_final_score ?b" and nonneg: "0 \<le> best_final_score ?b"
      using snoc.IH by (auto simp: best_init_def)
    show ?thesis
    proof (cases "final_score_of u v > best_final_score ?b")
      case True
      then have upd: "foldl update_best best_init (hs @ [h]) =
          \<lparr>best_final_score = final_score_of u v, best_orb_score = u, best_minutiae_score = v\<rparr>"
        by (simp add: h update_best_def)
      have "length hs < length (hs @ [h])" by simp
      moreover have "(hs @ [h]) ! length hs = Some (u, v)" using h by simp
      moreover have "0 < final_score_of u v" using True nonneg by simp
      moreover have "\<forall>j < length (hs @ [h]). \<forall>x' y'. (hs @ [h]) ! j = Some (x', y') \<longrightarrow>
           final_score_of x' y' \<le> final_score_of u v \<and>
           (j < length hs \<longrightarrow> final_score_of x' y' < final_score_of u v)"
      proof (intro allI impI)
        fix j x' y' assume j: "j < length (hs @ [h])" and e: "(hs @ [h]) ! j = Some (x', y')"
        from idx[OF j] show "final_score_of x' y' \<le> final_score_of u v \<and>
           (j < length hs \<longrightarrow> final_score_of x' y' < final_score_of u v)"
        proof
          assume jl: "j < length hs"
          then have "hs ! j = Some (x', y')" using e by (simp add: old)
          with bound jl have "final_score_of x' y' \<le> best_final_score ?b" by blast
          with True show ?thesis by simp
        next
          assume "j = length hs"
          then show ?thesis using e h by simp
        qed
      qed
      ultimately have "?W (hs @ [h])" unfolding upd by blast
      then show ?thesis ..
    next
      case False
      then have same: "foldl update_best best_init (hs @ [h]) = ?b"
        by (simp add: h update_best_def)
      from snoc.IH show ?thesis
      proof
        assume z: "?Z hs"
        then have "best_final_score ?b = 0" by (simp add: best_init_def)
        with False have "final_score_of u v \<le> 0" by simp
        then have "?Z (hs @ [h])"
          unfolding same using z h by (auto simp: nth_append less_Suc_eq)
        then show ?thesis ..
      next
        assume "?W hs"
        then obtain i x y where w: "i < length hs" "hs ! i = Some (x, y)" "0 < final_score_of x y"
          "?b = \<lparr>best_final_score = final_score_of x y, best_orb_score = x, best_minutiae_score = y\<rparr>"
          "\<forall>j < length hs. \<forall>x' y'. hs ! j = Some (x', y') \<longrightarrow>
             final_score_of x' y' \<le> final_score_of x y \<and>
             (j < i \<longrightarrow> final_score_of x' y' < final_score_of x y)"
          by blast
        have le: "final_score_of u v \<le> final_score_of x y" using False w(4) by simp
        have "i < length (hs @ [h])" using w(1) by simp
        moreover have "(hs @ [h]) ! i = Some (x, y)" using w(1,2) by (simp add: old)
        moreover have "\<forall>j < length (hs @ [h]). \<forall>x' y'. (hs @ [h]) ! j = Some (x', y') \<longrightarrow>
             final_score_of x' y' \<le> final_score_of x y \<and>
             (j < i \<longrightarrow> final_score_of x' y' < final_score_of x y)"
        proof (intro allI impI)
          fix j x' y' assume j: "j < length (hs @ [h])" and e: "(hs @ [h]) ! j = Some (x', y')"
          from idx[OF j] show "final_score_of x' y' \<le> final_score_of x y \<and>
             (j < i \<longrightarrow> final_score_of x' y' < final_score_of x y)"
          proof
            assume jl: "j < length hs"
            then have "hs ! j = Some (x', y')" using e by (simp add: old)
            with w(5) jl show ?thesis by blast
          next
            assume "j = length hs"
            then show ?thesis using e h le w(1) by simp
          qed
        qed
        ultimately have "?W (hs @ [h])" unfolding same using w(3,4) by blast
        then show ?thesis ..
      qed
    qed
  qed
qed

lemma foldl_update_best_fused:
  "best_final_score (foldl update_best best_init hs) =
     final_score_of (best_orb_score (foldl update_best best_init hs))
                    (best_minutiae_score (foldl update_best best_init hs))"
  using foldl_update_best[of hs] by (auto simp: best_init_def final_score_init)

lemma foldl_update_best_upper:
  "Some (x, y) \<in> set hs \<Longrightarrow> final_score_of x y \<le> best_final_score (foldl update_best best_init hs)"
  using foldl_update_best[of hs] by (auto simp: in_set_conv_nth best_init_def)


lemma verify_reaches:
  assumes "reaches_loop lib d image_path user_id base_image stored"
  shows "verify_fingerprint lib d image_path user_id =
     (let b = foldl update_best best_init (map (score_hypothesis lib stored base_image) angles);
          m = (best_final_score b \<ge> MATCH_THRESHOLD \<or>
               (best_orb_score b > 45 \<and> best_minutiae_score b > 15))
      in \<lparr>status = (if m then Match_found else No_match),
          is_match = m,
          accuracy = best_final_score b,
          orb_score = best_orb_score b,
          minutiae_score = best_minutiae_score b,
          matched_username = Some (username stored),
          message = (if m then ''Match found'' else ''No match found'')\<rparr>)"
  using assms by (simp add: reaches_loop_def verify_fingerprint_def match_loop_foldl)

subsection \<open>The nearest-neighbour query\<close>

lemma nearest_sq_None: "nearest_sq qs p = None \<longleftrightarrow> qs = []"
  by (induction qs) (auto split: option.splits)

lemma nearest_sq_less:
  "(\<exists>d. nearest_sq qs p = Some d \<and> d < k) \<longleftrightarrow> (\<exists>q \<in> set qs. sqdist p q < k)"
proof (induction qs)
  case Nil
  show ?case by simp
next
  case (Cons q qs)
  show ?case
  proof (cases "nearest_sq qs p")
    case None
    then have "qs = []" by (simp add: nearest_sq_None)
    with None show ?thesis by simp
  next
    case (Some d)
    with Cons.IH have "d < k \<longleftrightarrow> (\<exists>q \<in> set qs. sqdist p q < k)" by simp
    with Some show ?thesis by (auto simp: min_less_iff_disj)
  qed
qed

lemma dist2_sqdist: "dist2 p q = sqrt (real_of_int (sqdist p q))"
  by (simp add: dist2_def sqdist_def)

lemma dist2_less_6: "dist2 p q < 6 \<longleftrightarrow> sqdist p q < 36"
proof -
  have "dist2 p q < 6 \<longleftrightarrow> sqrt (real_of_int (sqdist p q)) < sqrt 36"
    by (simp add: dist2_sqdist)
  also have "\<dots> \<longleftrightarrow> real_of_int (sqdist p q) < 36"
    by (rule real_sqrt_less_iff)
  finally show ?thesis by simp
qed

lemma tree_query_within: "(\<exists>y. tree_query stored p = Some y) \<longleftrightarrow> within_radius stored p"
proof -
  have "(\<exists>y. tree_query stored p = Some y) \<longleftrightarrow> (\<exists>d. nearest_sq stored p = Some d \<and> d < 36)"
    by (auto simp: tree_query_def split: option.splits)
  then show ?thesis
    by (simp add: nearest_sq_less within_radius_def dist2_less_6)
qed

lemma matched_count:
  "length (filter (\<lambda>d. d \<noteq> None) (map (tree_query stored) probe)) =
   length (filter (within_radius stored) probe)"
  by (induction probe) (simp_all add: tree_query_within)

lemma within_radius_self: "p \<in> set ps \<Longrightarrow> within_radius ps p"
  by (auto simp: within_radius_def dist2_def intro!: bexI[of _ p])

lemma accuracy_minutiae_self: "ps \<noteq> [] \<Longrightarrow> accuracy_minutiae_of ps ps = 100"
proof -
  assume ne: "ps \<noteq> []"
  have "filter (within_radius ps) ps = ps"
    by (simp add: within_radius_self)
  then show ?thesis
    using ne rnd_values unfolding accuracy_minutiae_of_def Let_def matched_count
    by (simp add: fmul_def truediv_def)
qed

subsection \<open>Storage\<close>

lemma get_None_iff: "get_fingerprint_by_id d u = None \<longleftrightarrow> (\<forall>r \<in> set d. row_user_id r \<noteq> u)"
proof -
  have "find (\<lambda>r. row_user_id r = u) d = None \<longleftrightarrow> \<not> (\<exists>r. r \<in> set d \<and> row_user_id r = u)"
    by (rule find_None_iff)
  then show ?thesis
    by (cases "find (\<lambda>r. row_user_id r = u) d") (auto simp: get_fingerprint_by_id_def)
qed

lemma find_snoc:
  "find P (xs @ [x]) = (case find P xs of None \<Rightarrow> (if P x then Some x else None) | Some y \<Rightarrow> Some y)"
  by (induction xs) simp_all

lemma get_after_save:
  "get_fingerprint_by_id d u = None \<Longrightarrow>
   save_fingerprint d u data =
     (Registered, d @ [\<lparr>row_user_id = u, row_username = username data,
                        row_phone = phone data, row_descriptors = data\<rparr>]) \<and>
   get_fingerprint_by_id (snd (save_fingerprint d u data)) u = Some data"
proof -
  assume n: "get_fingerprint_by_id d u = None"
  then have no: "\<forall>r \<in> set d. row_user_id r \<noteq> u" by (simp add: get_None_iff)
  then have f: "find (\<lambda>r. row_user_id r = u) d = None" by (simp add: find_None_iff)
  from no have s: "save_fingerprint d u data =
     (Registered, d @ [\<lparr>row_user_id = u, row_username = username data,
                        row_phone = phone data, row_descriptors = data\<rparr>])"
    by (auto simp: save_fingerprint_def)
  have "find (\<lambda>r. row_user_id r = u) (d @ [\<lparr>row_user_id = u, row_username = username data,
                        row_phone = phone data, row_descriptors = data\<rparr>]) =
        Some \<lparr>row_user_id = u, row_username = username data,
                        row_phone = phone data, row_descriptors = data\<rparr>"
    using f by (simp add: find_snoc)
  then show ?thesis using s by (simp add: get_fingerprint_by_id_def)
qed

lemma register_keeps_existing:
  "get_fingerprint_by_id d user_id \<noteq> None \<Longrightarrow>
   snd (register_fingerprint lib d image_path user_id name ph) = d \<and>
   fst (register_fingerprint lib d image_path user_id name ph) \<noteq> Registered"
  by (simp add: register_fingerprint_def Let_def split: option.splits)

subsection \<open>Concrete runs\<close>

lemmas lib_eval = stub_lib_def one_file_def sharp_lib_def blurry_lib_def featureless_lib_def
  sparse_lib_def tilt_lib_def tilt_descs_def tilt_thin_def rails_lib_def drift_lib_def
  drift_descs_def drift_thin_def

lemma scan_minutiae_ex_skeleton:
  "scan_minutiae ex_skeleton =
     [(1, 1), (1, 11), (3, 1), (3, 11), (1, 5), (1, 6), (1, 7), (2, 6), (3, 5), (3, 6), (3, 7)]"
  by (simp add: scan_minutiae_def scan_lists_ex_skeleton)

lemma scan_minutiae_ex_stub: "scan_minutiae ex_stub = []"
  by (simp add: scan_minutiae_def scan_lists_ex_stub)

lemma scan_minutiae_ex_rails: "scan_minutiae ex_rails = [(1, 1), (1, 11), (3, 1), (3, 11)]"
  by (simp add: scan_minutiae_def ex_rails_def scan_eval upt_rec)

lemmas gate_eval = reaches_loop_def passes_gate_def is_image_blurry_def is_fingerprint_present_def
  get_fingerprint_by_id_def u1_db_def u2_db_def u3_db_def u4_db_def

lemma reaches_examples:
  "reaches_loop tilt_lib u1_db ''finger.png'' ''u1'' (ex_skeleton, 0) u1_template \<and>
   reaches_loop sharp_lib u1_db ''finger.png'' ''u1'' (ex_skeleton, 0) u1_template \<and>
   reaches_loop sparse_lib u1_db ''finger.png'' ''u1'' (ex_stub, 0) u1_template \<and>
   reaches_loop rails_lib u2_db ''finger.png'' ''u2'' (ex_rails, 0) u2_template \<and>
   reaches_loop rails_lib u3_db ''finger.png'' ''u3'' (ex_rails, 0) u3_template \<and>
   reaches_loop drift_lib u4_db ''finger.png'' ''u4'' (ex_rails, 0) u4_template"
  by (simp add: gate_eval lib_eval)

lemma passes_gate_examples:
  "passes_gate sharp_lib ''finger.png'' (ex_skeleton, 0) \<and>
   passes_gate featureless_lib ''finger.png'' (ex_skeleton, 0) \<and>
   passes_gate sparse_lib ''finger.png'' (ex_stub, 0) \<and>
   \<not> passes_gate blurry_lib ''finger.png'' (ex_skeleton, 0)"
  by (simp add: gate_eval lib_eval)

text \<open>The percentages and fused scores that occur in the runs below.\<close>

lemma percent_values:
  "fmul (truediv (Suc 0) 2) 100 = 50 \<and>
   fmul (truediv (Suc 0) 5) 100 = 20 \<and>
   fmul (truediv 4 15) 100 = 7505999378950827 / 281474976710656 \<and>
   fmul (truediv (Suc 0) 35) 100 = 6433713753386423 / 2251799813685248 \<and>
   fmul (truediv 2 7) 100 = 2010535547933257 / 70368744177664 \<and>
   fmul (truediv 2 11) 100 = 5117726849284655 / 281474976710656 \<and>
   fmul (truediv 2 22) 100 = 5117726849284655 / 562949953421312 \<and>
   fmul (truediv 2 2) 100 = 100 \<and>
   fmul (truediv 11 11) 100 = 100"
proof -
  have "fmul (truediv (Suc 0) 2) 100 = 50"
  proof -
    have p: "truediv (Suc 0) 2 = 1 / 2"
      unfolding truediv_def by (rule rnd_eval[where e = "- 1" and m = "4503599627370496"]) simp_all
    have "fmul (1 / 2) 100 = 50"
      unfolding fmul_def by (rule rnd_eval[where e = "5" and m = "7036874417766400"]) simp_all
    with p show ?thesis by (simp only:)
  qed
  moreover
  have "fmul (truediv (Suc 0) 5) 100 = 20"
  proof -
    have p: "truediv (Suc 0) 5 = 3602879701896397 / 18014398509481984"
      unfolding truediv_def by (rule rnd_eval[where e = "- 3" and m = "7205759403792794"]) simp_all
    have "fmul (3602879701896397 / 18014398509481984) 100 = 20"
      unfolding fmul_def by (rule rnd_eval[where e = "4" and m = "5629499534213120"]) simp_all
    with p show ?thesis by (simp only:)
  qed
  moreover
  have "fmul (truediv 4 15) 100 = 7505999378950827 / 281474976710656"
  proof -
    have p: "truediv 4 15 = 4803839602528529 / 18014398509481984"
      unfolding truediv_def by (rule rnd_eval[where e = "- 2" and m = "4803839602528529"]) simp_all
    have "fmul (4803839602528529 / 18014398509481984) 100 = 7505999378950827 / 281474976710656"
      unfolding fmul_def by (rule rnd_eval[where e = "4" and m = "7505999378950827"]) simp_all
    with p show ?thesis by (simp only:)
  qed
  moreover
  have "fmul (truediv (Suc 0) 35) 100 = 6433713753386423 / 2251799813685248"
  proof -
    have p: "truediv (Suc 0) 35 = 8235153604334621 / 288230376151711744"
      unfolding truediv_def by (rule rnd_eval[where e = "- 6" and m = "8235153604334621"]) simp_all
    have "fmul (8235153604334621 / 288230376151711744) 100 = 6433713753386423 / 2251799813685248"
      unfolding fmul_def by (rule rnd_eval[where e = "1" and m = "6433713753386423"]) simp_all
    with p show ?thesis by (simp only:)
  qed
  moreover
  have "fmul (truediv 2 7) 100 = 2010535547933257 / 70368744177664"
  proof -
    have p: "truediv 2 7 = 2573485501354569 / 9007199254740992"
      unfolding truediv_def by (rule rnd_eval[where e = "- 2" and m = "5146971002709138"]) simp_all
    have "fmul (2573485501354569 / 9007199254740992) 100 = 2010535547933257 / 70368744177664"
      unfolding fmul_def by (rule rnd_eval[where e = "4" and m = "8042142191733028"]) simp_all
    with p show ?thesis by (simp only:)
  qed
  moreover
  have "fmul (truediv 2 11) 100 = 5117726849284655 / 281474976710656"
  proof -
    have p: "truediv 2 11 = 3275345183542179 / 18014398509481984"
      unfolding truediv_def by (rule rnd_eval[where e = "- 3" and m = "6550690367084358"]) simp_all
    have "fmul (3275345183542179 / 18014398509481984) 100 = 5117726849284655 / 281474976710656"
      unfolding fmul_def by (rule rnd_eval[where e = "4" and m = "5117726849284655"]) simp_all
    with p show ?thesis by (simp only:)
  qed
  moreover
  have "fmul (truediv 2 22) 100 = 5117726849284655 / 562949953421312"
  proof -
    have p: "truediv 2 22 = 3275345183542179 / 36028797018963968"
      unfolding truediv_def by (rule rnd_eval[where e = "- 4" and m = "6550690367084358"]) simp_all
    have "fmul (3275345183542179 / 36028797018963968) 100 = 5117726849284655 / 562949953421312"
      unfolding fmul_def by (rule rnd_eval[where e = "3" and m = "5117726849284655"]) simp_all
    with p show ?thesis by (simp only:)
  qed
  moreover
  have "fmul (truediv 2 2) 100 = 100"
  proof -
    have p: "truediv 2 2 = 1"
      unfolding truediv_def by (rule rnd_eval[where e = "0" and m = "4503599627370496"]) simp_all
    have "fmul (1) 100 = 100"
      unfolding fmul_def by (rule rnd_eval[where e = "6" and m = "7036874417766400"]) simp_all
    with p show ?thesis by (simp only:)
  qed
  moreover
  have "fmul (truediv 11 11) 100 = 100"
  proof -
    have p: "truediv 11 11 = 1"
      unfolding truediv_def by (rule rnd_eval[where e = "0" and m = "4503599627370496"]) simp_all
    have "fmul (1) 100 = 100"
      unfolding fmul_def by (rule rnd_eval[where e = "6" and m = "7036874417766400"]) simp_all
    with p show ?thesis by (simp only:)
  qed
  ultimately show ?thesis by (simp only:)
qed

lemma fused_values:
  "final_score_of (50) (100) = 95 \<and>
   final_score_of (100) (0) = 10 \<and>
   final_score_of (100) (100) = 100 \<and>
   final_score_of (20) (7505999378950827 / 281474976710656) = 26 \<and>
   final_score_of (6433713753386423 / 2251799813685248) (2010535547933257 / 70368744177664) = 7318349394477055 / 281474976710656 \<and>
   final_score_of (5117726849284655 / 281474976710656) (5117726849284655 / 562949953421312) = 5629499534213121 / 562949953421312"
proof -
  have "final_score_of (50) (100) = 95"
  proof -
    have a: "fmul (50) lit_0_1 = 5"
      unfolding fmul_def lit_0_1_value by (rule rnd_eval[where e = "2" and m = "5629499534213120"]) simp_all
    have b: "fmul (100) lit_0_9 = 90"
      unfolding fmul_def lit_0_9_value by (rule rnd_eval[where e = "6" and m = "6333186975989760"]) simp_all
    have "fadd (5) (90) = 95"
      unfolding fadd_def by (rule rnd_eval[where e = "6" and m = "6685030696878080"]) simp_all
    with a b show ?thesis by (simp only: final_score_of_def)
  qed
  moreover
  have "final_score_of (100) (0) = 10"
  proof -
    have a: "fmul (100) lit_0_1 = 10"
      unfolding fmul_def lit_0_1_value by (rule rnd_eval[where e = "3" and m = "5629499534213120"]) simp_all
    have b: "fmul (0) lit_0_9 = 0"
      unfolding fmul_def lit_0_9_value by (simp add: rnd_zero)
    have "fadd (10) (0) = 10"
      unfolding fadd_def by (rule rnd_eval[where e = "3" and m = "5629499534213120"]) simp_all
    with a b show ?thesis by (simp only: final_score_of_def)
  qed
  moreover
  have "final_score_of (100) (100) = 100"
  proof -
    have a: "fmul (100) lit_0_1 = 10"
      unfolding fmul_def lit_0_1_value by (rule rnd_eval[where e = "3" and m = "5629499534213120"]) simp_all
    have b: "fmul (100) lit_0_9 = 90"
      unfolding fmul_def lit_0_9_value by (rule rnd_eval[where e = "6" and m = "6333186975989760"]) simp_all
    have "fadd (10) (90) = 100"
      unfolding fadd_def by (rule rnd_eval[where e = "6" and m = "7036874417766400"]) simp_all
    with a b show ?thesis by (simp only: final_score_of_def)
  qed
  moreover
  have "final_score_of (20) (7505999378950827 / 281474976710656) = 26"
  proof -
    have a: "fmul (20) lit_0_1 = 2"
      unfolding fmul_def lit_0_1_value by (rule rnd_eval[where e = "1" and m = "4503599627370496"]) simp_all
    have b: "fmul (7505999378950827 / 281474976710656) lit_0_9 = 24"
      unfolding fmul_def lit_0_9_value by (rule rnd_eval[where e = "4" and m = "6755399441055744"]) simp_all
    have "fadd (2) (24) = 26"
      unfolding fadd_def by (rule rnd_eval[where e = "4" and m = "7318349394477056"]) simp_all
    with a b show ?thesis by (simp only: final_score_of_def)
  qed
  moreover
  have "final_score_of (6433713753386423 / 2251799813685248) (2010535547933257 / 70368744177664) = 7318349394477055 / 281474976710656"
  proof -
    have a: "fmul (6433713753386423 / 2251799813685248) lit_0_1 = 5146971002709139 / 18014398509481984"
      unfolding fmul_def lit_0_1_value by (rule rnd_eval[where e = "- 2" and m = "5146971002709139"]) simp_all
    have b: "fmul (2010535547933257 / 70368744177664) lit_0_9 = 7237927972559725 / 281474976710656"
      unfolding fmul_def lit_0_9_value by (rule rnd_eval[where e = "4" and m = "7237927972559725"]) simp_all
    have "fadd (5146971002709139 / 18014398509481984) (7237927972559725 / 281474976710656) = 7318349394477055 / 281474976710656"
      unfolding fadd_def by (rule rnd_eval[where e = "4" and m = "7318349394477055"]) simp_all
    with a b show ?thesis by (simp only: final_score_of_def)
  qed
  moreover
  have "final_score_of (5117726849284655 / 281474976710656) (5117726849284655 / 562949953421312) = 5629499534213121 / 562949953421312"
  proof -
    have a: "fmul (5117726849284655 / 281474976710656) lit_0_1 = 1023545369856931 / 562949953421312"
      unfolding fmul_def lit_0_1_value by (rule rnd_eval[where e = "0" and m = "8188362958855448"]) simp_all
    have b: "fmul (5117726849284655 / 562949953421312) lit_0_9 = 2302977082178095 / 281474976710656"
      unfolding fmul_def lit_0_9_value by (rule rnd_eval[where e = "3" and m = "4605954164356190"]) simp_all
    have "fadd (1023545369856931 / 562949953421312) (2302977082178095 / 281474976710656) = 5629499534213121 / 562949953421312"
      unfolding fadd_def by (rule rnd_eval[where e = "3" and m = "5629499534213121"]) simp_all
    with a b show ?thesis by (simp only: final_score_of_def)
  qed
  ultimately show ?thesis by (simp only:)
qed

text \<open>List lengths come out as successor chains; the values above are stated on numerals.\<close>

lemmas percent_eval = percent_values numeral_2_eq_2[symmetric]

lemma nearest_sq_replicate:
  "nearest_sq (replicate n q) p = (if n = 0 then None else Some (sqdist p q))"
  by (induction n) simp_all

lemmas query_eval = accuracy_minutiae_of_def tree_query_def nearest_sq_replicate sqdist_def Let_def

lemma accuracy_minutiae_rails:
  "accuracy_minutiae_of (scan_minutiae ex_rails) (minutiae u2_template) =
     7505999378950827 / 281474976710656 \<and>
   accuracy_minutiae_of (scan_minutiae ex_rails) (minutiae u3_template) =
     2010535547933257 / 70368744177664 \<and>
   accuracy_minutiae_of (scan_minutiae ex_rails) (minutiae u4_template) =
     5117726849284655 / 562949953421312"
  by (simp add: scan_minutiae_ex_rails query_eval u2_template_def u3_template_def u4_template_def
      percent_eval)

lemma accuracy_minutiae_u1:
  "accuracy_minutiae_of (scan_minutiae ex_skeleton) (minutiae u1_template) = 100"
proof -
  have "scan_minutiae ex_skeleton \<noteq> []" by (simp add: scan_minutiae_ex_skeleton)
  then show ?thesis by (simp add: u1_template_def accuracy_minutiae_self)
qed

lemma accuracy_minutiae_empty: "accuracy_minutiae_of [] qs = 0"
  by (simp add: accuracy_minutiae_of_def)

text \<open>The scores of the five hypotheses in each run, as the doubles the source computes.\<close>

lemmas score_eval = angles_def score_hypothesis_def extract_minutiae_def lib_eval Let_def
  accuracy_orb_of_def

lemmas best_eval = update_best_def best_init_def MATCH_THRESHOLD_def Let_def

lemma scores_tilt:
  "map (score_hypothesis tilt_lib u1_template (ex_skeleton, 0)) angles =
     [Some (50, 100), None, Some (100, 0), Some (50, 100), None]"
  by (simp add: score_eval scan_minutiae_ex_stub accuracy_minutiae_empty accuracy_minutiae_u1
      percent_eval)
    (simp add: u1_template_def percent_eval)

lemma scores_sharp:
  "map (score_hypothesis sharp_lib u1_template (ex_skeleton, 0)) angles =
     [Some (100, 100), Some (100, 100), Some (100, 100), Some (100, 100), Some (100, 100)]"
  by (simp add: score_eval accuracy_minutiae_u1) (simp add: u1_template_def percent_eval)

lemma scores_sparse:
  "map (score_hypothesis sparse_lib u1_template (ex_stub, 0)) angles =
     [Some (100, 0), Some (100, 0), Some (100, 0), Some (100, 0), Some (100, 0)]"
  by (simp add: score_eval scan_minutiae_ex_stub accuracy_minutiae_empty)
    (simp add: u1_template_def percent_eval)

lemma scores_rails:
  "map (score_hypothesis rails_lib u2_template (ex_rails, 0)) angles =
     [Some (20, 7505999378950827 / 281474976710656),
      Some (20, 7505999378950827 / 281474976710656),
      Some (20, 7505999378950827 / 281474976710656),
      Some (20, 7505999378950827 / 281474976710656),
      Some (20, 7505999378950827 / 281474976710656)]"
  by (simp add: score_eval accuracy_minutiae_rails) (simp add: u2_template_def percent_eval)

lemma scores_rails_u3:
  "map (score_hypothesis rails_lib u3_template (ex_rails, 0)) angles =
     [Some (6433713753386423 / 2251799813685248, 2010535547933257 / 70368744177664),
      Some (6433713753386423 / 2251799813685248, 2010535547933257 / 70368744177664),
      Some (6433713753386423 / 2251799813685248, 2010535547933257 / 70368744177664),
      Some (6433713753386423 / 2251799813685248, 2010535547933257 / 70368744177664),
      Some (6433713753386423 / 2251799813685248, 2010535547933257 / 70368744177664)]"
  by (simp add: score_eval accuracy_minutiae_rails) (simp add: u3_template_def percent_eval)

lemma scores_drift:
  "map (score_hypothesis drift_lib u4_template (ex_rails, 0)) angles =
     [Some (100, 0),
      Some (5117726849284655 / 281474976710656, 5117726849284655 / 562949953421312),
      None, None, None]"
  by (simp add: score_eval scan_minutiae_ex_stub accuracy_minutiae_empty accuracy_minutiae_rails)
    (simp add: u4_template_def percent_eval)

lemma verify_tilt:
  "verify_fingerprint tilt_lib u1_db ''finger.png'' ''u1'' =
     \<lparr>status = Match_found, is_match = True, accuracy = 95, orb_score = 50,
      minutiae_score = 100, matched_username = Some ''alice'', message = ''Match found''\<rparr>"
  using reaches_examples
  by (simp add: verify_reaches[of tilt_lib u1_db _ _ "(ex_skeleton, 0)" u1_template] scores_tilt
      best_eval fused_values) (simp add: u1_template_def)

lemma verify_sharp:
  "verify_fingerprint sharp_lib u1_db ''finger.png'' ''u1'' =
     \<lparr>status = Match_found, is_match = True, accuracy = 100, orb_score = 100,
      minutiae_score = 100, matched_username = Some ''alice'', message = ''Match found''\<rparr>"
  using reaches_examples
  by (simp add: verify_reaches[of sharp_lib u1_db _ _ "(ex_skeleton, 0)" u1_template] scores_sharp
      best_eval fused_values) (simp add: u1_template_def)

lemma verify_sparse:
  "verify_fingerprint sparse_lib u1_db ''finger.png'' ''u1'' =
     \<lparr>status = No_match, is_match = False, accuracy = 10, orb_score = 100,
      minutiae_score = 0, matched_username = Some ''alice'', message = ''No match found''\<rparr>"
  using reaches_examples
  by (simp add: verify_reaches[of sparse_lib u1_db _ _ "(ex_stub, 0)" u1_template] scores_sparse
      best_eval fused_values) (simp add: u1_template_def)

text \<open>One descriptor in five and four minutiae in fifteen: the fused score is the double 26.\<close>

lemma verify_rails:
  "verify_fingerprint rails_lib u2_db ''finger.png'' ''u2'' =
     \<lparr>status = Match_found, is_match = True, accuracy = 26, orb_score = 20,
      minutiae_score = 7505999378950827 / 281474976710656,
      matched_username = Some ''bob'', message = ''Match found''\<rparr>"
  using reaches_examples
  by (simp add: verify_reaches[of rails_lib u2_db _ _ "(ex_rails, 0)" u2_template] scores_rails
      best_eval fused_values) (simp add: u2_template_def)

text \<open>
  One descriptor in 35 and two minutiae in seven: the exact value of
  \<open>0.1 * (100 / 35) + 0.9 * (200 / 7)\<close> is 26, the doubles of the source give
  25.999999999999996, and the outcome is no_match.
\<close>

lemma verify_rails_u3:
  "verify_fingerprint rails_lib u3_db ''finger.png'' ''u3'' =
     \<lparr>status = No_match, is_match = False,
      accuracy = 7318349394477055 / 281474976710656,
      orb_score = 6433713753386423 / 2251799813685248,
      minutiae_score = 2010535547933257 / 70368744177664,
      matched_username = Some ''carol'', message = ''No match found''\<rparr>"
  using reaches_examples
  by (simp add: verify_reaches[of rails_lib u3_db _ _ "(ex_rails, 0)" u3_template] scores_rails_u3
      best_eval fused_values) (simp add: u3_template_def)

text \<open>
  Scores (100, 0) at -10 degrees and (200/11, 100/11) at -5 degrees have the same exact
  fused value 10; in doubles the second is 10.000000000000002, larger than 10.0, and
  its pair is the one reported.
\<close>

lemma verify_drift:
  "verify_fingerprint drift_lib u4_db ''finger.png'' ''u4'' =
     \<lparr>status = No_match, is_match = False,
      accuracy = 5629499534213121 / 562949953421312,
      orb_score = 5117726849284655 / 281474976710656,
      minutiae_score = 5117726849284655 / 562949953421312,
      matched_username = Some ''dave'', message = ''No match found''\<rparr>"
  using reaches_examples
  by (simp add: verify_reaches[of drift_lib u4_db _ _ "(ex_rails, 0)" u4_template] scores_drift
      best_eval fused_values) (simp add: u4_template_def)

lemma register_examples:
  "register_fingerprint sharp_lib [] ''finger.png'' ''u1'' ''alice'' ''555'' = (Registered, u1_db) \<and>
   register_fingerprint sharp_lib u1_db ''finger.png'' ''u1'' ''mallory'' ''000'' = (AlreadyRegistered, u1_db) \<and>
   register_fingerprint blurry_lib u1_db ''finger.png'' ''u1'' ''mallory'' ''000'' = (TooBlurry, u1_db) \<and>
   register_fingerprint featureless_lib [] ''finger.png'' ''u1'' ''alice'' ''555'' = (NoDescriptorsFound, [])"
  by (simp add: register_fingerprint_def save_fingerprint_def extract_minutiae_def gate_eval lib_eval
      u1_template_def Let_def)

section \<open>The claims about matching, enrollment and storage\<close>

text \<open>
  C1. Whenever a verification reaches the hypothesis loop, the result declares a match
  exactly when the best fused score is at least 26, or the descriptor score at the best
  hypothesis is above 45 and the minutiae score there is above 15; the status is
  match_found exactly then and no_match otherwise. The fused score of a pair of scores
  is the double \<open>0.1 * descriptor_score + 0.9 * minutiae_score\<close>, both products and
  the sum rounded; the reported best fused score is the fused score of the reported
  pair, and no scored hypothesis has a larger one. In particular a best fused score of
  exactly 26.0 gives match_found, and one below 26 without the fallback gives no_match.
\<close>

theorem decision_rule:
  "MATCH_THRESHOLD = 26 \<and>
   (reaches_loop lib d image_path user_id base_image stored \<longrightarrow>
     (let r = verify_fingerprint lib d image_path user_id in
        (is_match r \<longleftrightarrow> accuracy r \<ge> 26 \<or> (orb_score r > 45 \<and> minutiae_score r > 15)) \<and>
        status r = (if is_match r then Match_found else No_match) \<and>
        accuracy r = fadd (fmul lit_0_1 (orb_score r)) (fmul lit_0_9 (minutiae_score r)) \<and>
        (\<forall>a \<in> set angles. \<forall>x y. score_hypothesis lib stored base_image a = Some (x, y) \<longrightarrow>
           fadd (fmul lit_0_1 x) (fmul lit_0_9 y) \<le> accuracy r) \<and>
        (accuracy r = 26 \<longrightarrow> status r = Match_found) \<and>
        (accuracy r < 26 \<and> \<not> (orb_score r > 45 \<and> minutiae_score r > 15) \<longrightarrow> status r = No_match)))"
proof -
  have fs: "final_score_of x y = fadd (fmul lit_0_1 x) (fmul lit_0_9 y)" for x y
    by (simp add: final_score_of_def fmul_def mult.commute)
  have "?thesis" if r: "reaches_loop lib d image_path user_id base_image stored"
  proof -
    let ?hs = "map (score_hypothesis lib stored base_image) angles"
    let ?b = "foldl update_best best_init ?hs"
    have fused: "best_final_score ?b =
        fadd (fmul lit_0_1 (best_orb_score ?b)) (fmul lit_0_9 (best_minutiae_score ?b))"
      using foldl_update_best_fused[of ?hs] by (simp only: fs)
    have upper: "fadd (fmul lit_0_1 x) (fmul lit_0_9 y) \<le> best_final_score ?b"
      if "a \<in> set angles" "score_hypothesis lib stored base_image a = Some (x, y)" for a x y
    proof -
      from that have "Some (x, y) \<in> set ?hs" by (metis image_eqI set_map)
      from foldl_update_best_upper[OF this] show ?thesis by (simp only: fs)
    qed
    show ?thesis
      using fused upper by (simp add: verify_reaches[OF r] Let_def MATCH_THRESHOLD_def)
  qed
  then show ?thesis by (auto simp: MATCH_THRESHOLD_def)
qed

theorem decision_rule_witness:
  "reaches_loop rails_lib u2_db ''finger.png'' ''u2'' (ex_rails, 0) u2_template \<and>
   accuracy (verify_fingerprint rails_lib u2_db ''finger.png'' ''u2'') = 26 \<and>
   \<not> orb_score (verify_fingerprint rails_lib u2_db ''finger.png'' ''u2'') > 45 \<and>
   status (verify_fingerprint rails_lib u2_db ''finger.png'' ''u2'') = Match_found \<and>
   reaches_loop rails_lib u3_db ''finger.png'' ''u3'' (ex_rails, 0) u3_template \<and>
   accuracy (verify_fingerprint rails_lib u3_db ''finger.png'' ''u3'') < 26 \<and>
   \<not> orb_score (verify_fingerprint rails_lib u3_db ''finger.png'' ''u3'') > 45 \<and>
   status (verify_fingerprint rails_lib u3_db ''finger.png'' ''u3'') = No_match"
proof -
  have r1: "reaches_loop rails_lib u2_db ''finger.png'' ''u2'' (ex_rails, 0) u2_template"
    and r2: "reaches_loop rails_lib u3_db ''finger.png'' ''u3'' (ex_rails, 0) u3_template"
    using reaches_examples by simp_all
  have a1: "accuracy (verify_fingerprint rails_lib u2_db ''finger.png'' ''u2'') = 26"
    and o1: "\<not> orb_score (verify_fingerprint rails_lib u2_db ''finger.png'' ''u2'') > 45"
    by (simp_all add: verify_rails)
  have a2: "accuracy (verify_fingerprint rails_lib u3_db ''finger.png'' ''u3'') < 26"
    and o2: "\<not> orb_score (verify_fingerprint rails_lib u3_db ''finger.png'' ''u3'') > 45"
    by (simp_all add: verify_rails_u3)
  from decision_rule[of rails_lib u2_db "''finger.png''" "''u2''" "(ex_rails, 0)" u2_template] r1 a1
  have s1: "status (verify_fingerprint rails_lib u2_db ''finger.png'' ''u2'') = Match_found"
    by (simp add: Let_def)
  from decision_rule[of rails_lib u3_db "''finger.png''" "''u3''" "(ex_rails, 0)" u3_template] r2 a2 o2
  have s2: "status (verify_fingerprint rails_lib u3_db ''finger.png'' ''u3'') = No_match"
    by (simp add: Let_def)
  from r1 r2 a1 o1 a2 o2 s1 s2 show ?thesis by blast
qed




text \<open>Just inside the bound the point counts: a stored point at distance 5 gives 100.\<close>

lemma query_inside_bound: "accuracy_minutiae_of [(0, 0)] [(0, 5)] = 100"
  using rnd_values
  by (simp add: accuracy_minutiae_of_def tree_query_def sqdist_def Let_def truediv_def fmul_def)

text \<open>
  C4. The rotation hypotheses are -10, -5, 0, 5, 10 degrees, in this order. When a
  verification reaches the loop and at least one hypothesis is scored, the reported
  descriptor score and minutiae score are the pair of one and the same hypothesis, the
  reported fused score is the fused score of that pair, no scored hypothesis has a
  larger fused score, and every scored hypothesis before it in the order has a strictly
  smaller one: among equal fused scores the earliest angle wins. When no hypothesis is
  scored the three reported scores are 0. Fused scores are the doubles the source
  compares, so equal means equal as doubles.
\<close>

theorem best_scores_from_first_maximal_hypothesis:
  "angles = [-10, -5, 0, 5, 10] \<and>
   (reaches_loop lib d image_path user_id base_image stored \<longrightarrow>
     (let r = verify_fingerprint lib d image_path user_id;
          hs = map (score_hypothesis lib stored base_image) angles
      in ((\<forall>h \<in> set hs. h = None) \<longrightarrow>
            accuracy r = 0 \<and> orb_score r = 0 \<and> minutiae_score r = 0) \<and>
         ((\<exists>h \<in> set hs. h \<noteq> None) \<longrightarrow>
            (\<exists>i < length hs.
               hs ! i = Some (orb_score r, minutiae_score r) \<and>
               accuracy r = final_score_of (orb_score r) (minutiae_score r) \<and>
               (\<forall>j < length hs. \<forall>x y. hs ! j = Some (x, y) \<longrightarrow>
                  final_score_of x y \<le> accuracy r \<and>
                  (j < i \<longrightarrow> final_score_of x y < accuracy r))))))"
proof -
  have "?thesis" if r: "reaches_loop lib d image_path user_id base_image stored"
  proof -
    let ?hs = "map (score_hypothesis lib stored base_image) angles"
    let ?b = "foldl update_best best_init ?hs"
    have res: "accuracy (verify_fingerprint lib d image_path user_id) = best_final_score ?b"
      "orb_score (verify_fingerprint lib d image_path user_id) = best_orb_score ?b"
      "minutiae_score (verify_fingerprint lib d image_path user_id) = best_minutiae_score ?b"
      by (simp_all add: verify_reaches[OF r] Let_def)
    have nonneg: "0 \<le> x \<and> 0 \<le> y" if "j < length ?hs" "?hs ! j = Some (x, y)" for j x y
      using that score_hypothesis_nonneg[of lib stored base_image "angles ! j" x y] by simp
    have none: "best_final_score ?b = 0 \<and> best_orb_score ?b = 0 \<and> best_minutiae_score ?b = 0"
      if "\<forall>h \<in> set ?hs. h = None"
    proof -
      from that have "\<not> (\<exists>i < length ?hs. \<exists>x y. ?hs ! i = Some (x, y))"
        by (metis nth_mem option.distinct(1))
      with foldl_update_best[of ?hs] have "?b = best_init" by blast
      then show ?thesis by (simp add: best_init_def)
    qed
    have some: "\<exists>i < length ?hs.
               ?hs ! i = Some (best_orb_score ?b, best_minutiae_score ?b) \<and>
               best_final_score ?b = final_score_of (best_orb_score ?b) (best_minutiae_score ?b) \<and>
               (\<forall>j < length ?hs. \<forall>x y. ?hs ! j = Some (x, y) \<longrightarrow>
                  final_score_of x y \<le> best_final_score ?b \<and>
                  (j < i \<longrightarrow> final_score_of x y < best_final_score ?b))"
      if ex: "\<exists>h \<in> set ?hs. h \<noteq> None"
      using foldl_update_best[of ?hs]
    proof
      assume z: "?b = best_init \<and>
        (\<forall>j < length ?hs. \<forall>x y. ?hs ! j = Some (x, y) \<longrightarrow> final_score_of x y \<le> 0)"
      define i where "i = (LEAST k. k < length ?hs \<and> ?hs ! k \<noteq> None)"
      from ex obtain k where k: "k < length ?hs \<and> ?hs ! k \<noteq> None"
        by (metis in_set_conv_nth)
      have i: "i < length ?hs \<and> ?hs ! i \<noteq> None"
        unfolding i_def using k by (rule LeastI)
      have least: "\<not> (j < length ?hs \<and> ?hs ! j \<noteq> None)" if "j < i" for j
        using that unfolding i_def by (rule not_less_Least)
      from i obtain x y where xy: "?hs ! i = Some (x, y)" by auto
      from z i xy have "final_score_of x y \<le> 0" by blast
      with nonneg[of i x y] i xy have zero: "x = 0 \<and> y = 0"
        using final_score_zero by blast
      have b: "best_final_score ?b = 0 \<and> best_orb_score ?b = 0 \<and> best_minutiae_score ?b = 0"
        using z by (simp add: best_init_def)
      have "\<forall>j < length ?hs. \<forall>x y. ?hs ! j = Some (x, y) \<longrightarrow>
                  final_score_of x y \<le> best_final_score ?b \<and>
                  (j < i \<longrightarrow> final_score_of x y < best_final_score ?b)"
      proof (intro allI impI)
        fix j x' y' assume j: "j < length ?hs" and e: "?hs ! j = Some (x', y')"
        from z j e b have "final_score_of x' y' \<le> best_final_score ?b" by simp
        moreover have "\<not> j < i" using least[of j] j e by auto
        ultimately show "final_score_of x' y' \<le> best_final_score ?b \<and>
                  (j < i \<longrightarrow> final_score_of x' y' < best_final_score ?b)" by simp
      qed
      moreover have "?hs ! i = Some (best_orb_score ?b, best_minutiae_score ?b)"
        using xy zero b by simp
      moreover have "best_final_score ?b = final_score_of (best_orb_score ?b) (best_minutiae_score ?b)"
        using b by (simp add: final_score_init)
      ultimately show ?thesis using i by blast
    next
      assume "\<exists>i < length ?hs. \<exists>x y. ?hs ! i = Some (x, y) \<and> 0 < final_score_of x y \<and>
        ?b = \<lparr>best_final_score = final_score_of x y, best_orb_score = x, best_minutiae_score = y\<rparr> \<and>
        (\<forall>j < length ?hs. \<forall>x' y'. ?hs ! j = Some (x', y') \<longrightarrow>
           final_score_of x' y' \<le> final_score_of x y \<and>
           (j < i \<longrightarrow> final_score_of x' y' < final_score_of x y))"
      then obtain i x y where w: "i < length ?hs" "?hs ! i = Some (x, y)"
        "?b = \<lparr>best_final_score = final_score_of x y, best_orb_score = x, best_minutiae_score = y\<rparr>"
        "\<forall>j < length ?hs. \<forall>x' y'. ?hs ! j = Some (x', y') \<longrightarrow>
           final_score_of x' y' \<le> final_score_of x y \<and>
           (j < i \<longrightarrow> final_score_of x' y' < final_score_of x y)"
        by blast
      have b: "best_final_score ?b = final_score_of x y" "best_orb_score ?b = x"
        "best_minutiae_score ?b = y"
        by (simp_all add: w(3))
      show ?thesis unfolding b using w(1,2,4) by blast
    qed
    show ?thesis
      unfolding Let_def res using none some by (simp add: angles_def)
  qed
  then show ?thesis by (auto simp: angles_def)
qed


theorem best_scores_from_first_maximal_hypothesis_witness:
  "reaches_loop tilt_lib u1_db ''finger.png'' ''u1'' (ex_skeleton, 0) u1_template \<and>
   map (score_hypothesis tilt_lib u1_template (ex_skeleton, 0)) angles =
     [Some (50, 100), None, Some (100, 0), Some (50, 100), None] \<and>
   orb_score (verify_fingerprint tilt_lib u1_db ''finger.png'' ''u1'') = 50 \<and>
   minutiae_score (verify_fingerprint tilt_lib u1_db ''finger.png'' ''u1'') = 100 \<and>
   accuracy (verify_fingerprint tilt_lib u1_db ''finger.png'' ''u1'') = 95 \<and>
   (let r = verify_fingerprint tilt_lib u1_db ''finger.png'' ''u1'';
        hs = map (score_hypothesis tilt_lib u1_template (ex_skeleton, 0)) angles
    in \<exists>i < length hs.
         hs ! i = Some (orb_score r, minutiae_score r) \<and>
         accuracy r = final_score_of (orb_score r) (minutiae_score r) \<and>
         (\<forall>j < length hs. \<forall>x y. hs ! j = Some (x, y) \<longrightarrow>
            final_score_of x y \<le> accuracy r \<and>
            (j < i \<longrightarrow> final_score_of x y < accuracy r))) \<and>
   reaches_loop drift_lib u4_db ''finger.png'' ''u4'' (ex_rails, 0) u4_template \<and>
   map (score_hypothesis drift_lib u4_template (ex_rails, 0)) angles =
     [Some (100, 0),
      Some (5117726849284655 / 281474976710656, 5117726849284655 / 562949953421312),
      None, None, None] \<and>
   final_score_of 100 0 = 10 \<and>
   accuracy (verify_fingerprint drift_lib u4_db ''finger.png'' ''u4'') =
     5629499534213121 / 562949953421312 \<and>
   orb_score (verify_fingerprint drift_lib u4_db ''finger.png'' ''u4'') =
     5117726849284655 / 281474976710656 \<and>
   minutiae_score (verify_fingerprint drift_lib u4_db ''finger.png'' ''u4'') =
     5117726849284655 / 562949953421312"
proof -
  have r: "reaches_loop tilt_lib u1_db ''finger.png'' ''u1'' (ex_skeleton, 0) u1_template"
    using reaches_examples by simp
  have ex: "\<exists>h \<in> set (map (score_hypothesis tilt_lib u1_template (ex_skeleton, 0)) angles). h \<noteq> None"
    unfolding scores_tilt by simp
  from best_scores_from_first_maximal_hypothesis
    [of tilt_lib u1_db "''finger.png''" "''u1''" "(ex_skeleton, 0)" u1_template] r ex
  have "let r = verify_fingerprint tilt_lib u1_db ''finger.png'' ''u1'';
        hs = map (score_hypothesis tilt_lib u1_template (ex_skeleton, 0)) angles
    in \<exists>i < length hs.
         hs ! i = Some (orb_score r, minutiae_score r) \<and>
         accuracy r = final_score_of (orb_score r) (minutiae_score r) \<and>
         (\<forall>j < length hs. \<forall>x y. hs ! j = Some (x, y) \<longrightarrow>
            final_score_of x y \<le> accuracy r \<and>
            (j < i \<longrightarrow> final_score_of x y < accuracy r))"
    unfolding Let_def by blast
  moreover have "reaches_loop drift_lib u4_db ''finger.png'' ''u4'' (ex_rails, 0) u4_template"
    using reaches_examples by simp
  moreover have "final_score_of 100 0 = 10" using fused_values by simp
  ultimately show ?thesis
    using r scores_tilt scores_drift by (simp add: verify_tilt verify_drift)
qed

text \<open>
  C7. At enrollment, an image that passes the quality gate but yields no descriptor
  array or an empty one makes the call fail with the outcome for missing descriptors,
  and the table is left as it was. At verification, a rotation hypothesis that yields no
  descriptors is not scored: it leaves the running best values as they are, the loop
  goes on with the remaining angles as if that angle were not in the list, and a
  verification that reaches the loop always ends in match_found or no_match.
\<close>

theorem missing_descriptors_fail_enrollment_skip_hypothesis:
  "(passes_gate lib image_path img \<and>
    (orb_descriptors lib (enhance_fingerprint lib img) = None \<or>
     orb_descriptors lib (enhance_fingerprint lib img) = Some []) \<longrightarrow>
      register_fingerprint lib d image_path user_id name ph = (NoDescriptorsFound, d)) \<and>
   ((orb_descriptors lib (enhance_fingerprint lib (rotate_image lib base_image a)) = None \<or>
     orb_descriptors lib (enhance_fingerprint lib (rotate_image lib base_image a)) = Some []) \<longrightarrow>
      score_hypothesis lib stored base_image a = None \<and>
      update_best b (score_hypothesis lib stored base_image a) = b \<and>
      match_loop lib stored base_image (as1 @ a # as2) b =
        match_loop lib stored base_image (as1 @ as2) b) \<and>
   (reaches_loop lib d image_path user_id base_image stored \<longrightarrow>
      status (verify_fingerprint lib d image_path user_id) = Match_found \<or>
      status (verify_fingerprint lib d image_path user_id) = No_match)"
proof -
  have enroll: "register_fingerprint lib d image_path user_id name ph = (NoDescriptorsFound, d)"
    if "passes_gate lib image_path img"
      "orb_descriptors lib (enhance_fingerprint lib img) = None \<or>
       orb_descriptors lib (enhance_fingerprint lib img) = Some []"
    using that by (auto simp: passes_gate_def register_fingerprint_def Let_def)
  have skip: "score_hypothesis lib stored base_image a = None"
    if "orb_descriptors lib (enhance_fingerprint lib (rotate_image lib base_image a)) = None \<or>
        orb_descriptors lib (enhance_fingerprint lib (rotate_image lib base_image a)) = Some []"
    using that by (auto simp: score_hypothesis_def Let_def)
  have same: "update_best b (score_hypothesis lib stored base_image a) = b"
    and loop: "match_loop lib stored base_image (as1 @ a # as2) b =
        match_loop lib stored base_image (as1 @ as2) b"
    if "score_hypothesis lib stored base_image a = None"
    using that by (simp_all add: match_loop_foldl update_best_def)
  have verdict: "status (verify_fingerprint lib d image_path user_id) = Match_found \<or>
      status (verify_fingerprint lib d image_path user_id) = No_match"
    if "reaches_loop lib d image_path user_id base_image stored"
    by (simp add: verify_reaches[OF that] Let_def)
  from enroll skip same loop verdict show ?thesis by blast
qed

theorem missing_descriptors_fail_enrollment_skip_hypothesis_witness:
  "passes_gate featureless_lib ''finger.png'' (ex_skeleton, 0) \<and>
   orb_descriptors featureless_lib (enhance_fingerprint featureless_lib (ex_skeleton, 0)) = Some [] \<and>
   register_fingerprint featureless_lib [] ''finger.png'' ''u1'' ''alice'' ''555'' = (NoDescriptorsFound, []) \<and>
   orb_descriptors tilt_lib (enhance_fingerprint tilt_lib (rotate_image tilt_lib (ex_skeleton, 0) (-5))) = None \<and>
   match_loop tilt_lib u1_template (ex_skeleton, 0) ([-10] @ (-5) # [0, 5, 10]) best_init =
     match_loop tilt_lib u1_template (ex_skeleton, 0) ([-10] @ [0, 5, 10]) best_init \<and>
   orb_descriptors tilt_lib (enhance_fingerprint tilt_lib (rotate_image tilt_lib (ex_skeleton, 0) 10)) = Some [] \<and>
   score_hypothesis tilt_lib u1_template (ex_skeleton, 0) 10 = None \<and>
   reaches_loop tilt_lib u1_db ''finger.png'' ''u1'' (ex_skeleton, 0) u1_template \<and>
   status (verify_fingerprint tilt_lib u1_db ''finger.png'' ''u1'') = Match_found"
proof -
  have g: "passes_gate featureless_lib ''finger.png'' (ex_skeleton, 0)"
    using passes_gate_examples by simp
  have e: "orb_descriptors featureless_lib (enhance_fingerprint featureless_lib (ex_skeleton, 0)) = Some []"
    by (simp add: lib_eval)
  have n: "orb_descriptors tilt_lib (enhance_fingerprint tilt_lib (rotate_image tilt_lib (ex_skeleton, 0) (-5))) = None"
    by (simp add: lib_eval)
  have t: "orb_descriptors tilt_lib (enhance_fingerprint tilt_lib (rotate_image tilt_lib (ex_skeleton, 0) 10)) = Some []"
    by (simp add: lib_eval)
  have r: "reaches_loop tilt_lib u1_db ''finger.png'' ''u1'' (ex_skeleton, 0) u1_template"
    using reaches_examples by simp
  from missing_descriptors_fail_enrollment_skip_hypothesis
    [of featureless_lib "''finger.png''" "(ex_skeleton, 0)" "[]" "''u1''" "''alice''" "''555''"] g e
  have c1: "register_fingerprint featureless_lib [] ''finger.png'' ''u1'' ''alice'' ''555'' = (NoDescriptorsFound, [])"
    by blast
  from missing_descriptors_fail_enrollment_skip_hypothesis
    [of tilt_lib _ _ _ _ _ _ "(ex_skeleton, 0)" "-5" u1_template best_init "[-10]" "[0, 5, 10]"] n
  have c2: "match_loop tilt_lib u1_template (ex_skeleton, 0) ([-10] @ (-5) # [0, 5, 10]) best_init =
     match_loop tilt_lib u1_template (ex_skeleton, 0) ([-10] @ [0, 5, 10]) best_init"
    by blast
  from missing_descriptors_fail_enrollment_skip_hypothesis
    [of tilt_lib _ _ _ _ _ _ "(ex_skeleton, 0)" 10 u1_template] t
  have c3: "score_hypothesis tilt_lib u1_template (ex_skeleton, 0) 10 = None"
    by blast
  have c4: "status (verify_fingerprint tilt_lib u1_db ''finger.png'' ''u1'') = Match_found"
    by (simp add: verify_tilt)
  from g e n t r c1 c2 c3 c4 show ?thesis by blast
qed

text \<open>
  C10. Whenever a verification passes the quality gate and a template is found for the
  user, the returned username is the one held in the stored template, whether the
  outcome is match_found or no_match; the username is absent exactly on the four early
  returns (error, blurry, no_fingerprint, no_user).
\<close>

theorem username_of_stored_template:
  "(reaches_loop lib d image_path user_id base_image stored \<longrightarrow>
      matched_username (verify_fingerprint lib d image_path user_id) = Some (username stored)) \<and>
   (matched_username (verify_fingerprint lib d image_path user_id) = None \<longleftrightarrow>
      status (verify_fingerprint lib d image_path user_id) \<in> {Error, Blurry, No_fingerprint, No_user})"
proof -
  have a: "matched_username (verify_fingerprint lib d image_path user_id) = Some (username stored)"
    if "reaches_loop lib d image_path user_id base_image stored"
    by (simp add: verify_reaches[OF that] Let_def)
  have b: "matched_username (verify_fingerprint lib d image_path user_id) = None \<longleftrightarrow>
      status (verify_fingerprint lib d image_path user_id) \<in> {Error, Blurry, No_fingerprint, No_user}"
    by (simp add: verify_fingerprint_def early_return_def Let_def split: option.splits)
  from a b show ?thesis by blast
qed

theorem username_of_stored_template_witness:
  "reaches_loop sparse_lib u1_db ''finger.png'' ''u1'' (ex_stub, 0) u1_template \<and>
   status (verify_fingerprint sparse_lib u1_db ''finger.png'' ''u1'') = No_match \<and>
   \<not> is_match (verify_fingerprint sparse_lib u1_db ''finger.png'' ''u1'') \<and>
   matched_username (verify_fingerprint sparse_lib u1_db ''finger.png'' ''u1'') = Some ''alice'' \<and>
   status (verify_fingerprint sparse_lib u1_db ''finger.png'' ''u404'') = No_user \<and>
   matched_username (verify_fingerprint sparse_lib u1_db ''finger.png'' ''u404'') = None"
proof -
  have r: "reaches_loop sparse_lib u1_db ''finger.png'' ''u1'' (ex_stub, 0) u1_template"
    using reaches_examples by simp
  have s: "status (verify_fingerprint sparse_lib u1_db ''finger.png'' ''u404'') = No_user"
    by (simp add: verify_fingerprint_def early_return_def gate_eval lib_eval)
  from username_of_stored_template
    [of sparse_lib u1_db "''finger.png''" "''u1''" "(ex_stub, 0)" u1_template] r
  have u: "matched_username (verify_fingerprint sparse_lib u1_db ''finger.png'' ''u1'') = Some (username u1_template)"
    by blast
  from username_of_stored_template[of sparse_lib u1_db "''finger.png''" "''u404''"] s
  have n: "matched_username (verify_fingerprint sparse_lib u1_db ''finger.png'' ''u404'') = None"
    by simp
  from r s u n show ?thesis by (simp add: verify_sparse u1_template_def)
qed


text \<open>
  C8. When a template already exists for a user id, a further enrollment attempt that
  reaches the duplicate check (its image passes the quality gate and yields at least
  one descriptor) returns the duplicate outcome, and the table, and with it the stored
  template, is exactly as before; the storage layer answers an insert for that user id
  with the duplicate outcome and no change as well. In particular, after a successful
  enrollment a template exists for the user, it carries the username of that
  enrollment, and enrolling the same image for the same user id again, under whatever
  name and phone, returns the duplicate outcome and leaves the table and the template
  unmodified. No enrollment attempt for a user with a template changes the table.
\<close>

theorem duplicate_enrollment_keeps_template:
  "(get_fingerprint_by_id d user_id = Some t \<longrightarrow>
      snd (register_fingerprint lib d image_path user_id name ph) = d \<and>
      get_fingerprint_by_id (snd (register_fingerprint lib d image_path user_id name ph)) user_id = Some t \<and>
      fst (register_fingerprint lib d image_path user_id name ph) \<noteq> Registered \<and>
      (passes_gate lib image_path img \<and>
       orb_descriptors lib (enhance_fingerprint lib img) = Some ds \<and> ds \<noteq> [] \<longrightarrow>
         register_fingerprint lib d image_path user_id name ph = (AlreadyRegistered, d)) \<and>
      save_fingerprint d user_id data = (AlreadyRegistered, d)) \<and>
   (fst (register_fingerprint lib d image_path user_id name ph) = Registered \<longrightarrow>
      (let d' = snd (register_fingerprint lib d image_path user_id name ph) in
         map_option username (get_fingerprint_by_id d' user_id) = Some name \<and>
         register_fingerprint lib d' image_path user_id name' ph' = (AlreadyRegistered, d') \<and>
         get_fingerprint_by_id (snd (register_fingerprint lib d' image_path user_id name' ph')) user_id =
           get_fingerprint_by_id d' user_id))"
proof -
  have dup: "register_fingerprint lib d0 image_path user_id n0 p0 = (AlreadyRegistered, d0)"
    if "passes_gate lib image_path img0"
      "orb_descriptors lib (enhance_fingerprint lib img0) = Some ds0" "ds0 \<noteq> []"
      "get_fingerprint_by_id d0 user_id \<noteq> None"
    for d0 img0 ds0 n0 p0
    using that by (auto simp: passes_gate_def register_fingerprint_def Let_def)
  have first: "snd (register_fingerprint lib d image_path user_id name ph) = d \<and>
      get_fingerprint_by_id (snd (register_fingerprint lib d image_path user_id name ph)) user_id = Some t \<and>
      fst (register_fingerprint lib d image_path user_id name ph) \<noteq> Registered \<and>
      (passes_gate lib image_path img \<and>
       orb_descriptors lib (enhance_fingerprint lib img) = Some ds \<and> ds \<noteq> [] \<longrightarrow>
         register_fingerprint lib d image_path user_id name ph = (AlreadyRegistered, d)) \<and>
      save_fingerprint d user_id data = (AlreadyRegistered, d)"
    if t: "get_fingerprint_by_id d user_id = Some t"
  proof -
    from t have ex: "get_fingerprint_by_id d user_id \<noteq> None" by simp
    from register_keeps_existing[OF ex, of lib image_path name ph]
    have keep: "snd (register_fingerprint lib d image_path user_id name ph) = d"
      and nr: "fst (register_fingerprint lib d image_path user_id name ph) \<noteq> Registered"
      by simp_all
    have "\<exists>r \<in> set d. row_user_id r = user_id"
      using ex by (simp add: get_None_iff)
    then have save: "save_fingerprint d user_id data = (AlreadyRegistered, d)"
      by (simp add: save_fingerprint_def)
    have d1: "register_fingerprint lib d image_path user_id name ph = (AlreadyRegistered, d)"
      if "passes_gate lib image_path img \<and>
          orb_descriptors lib (enhance_fingerprint lib img) = Some ds \<and> ds \<noteq> []"
      using that dup[OF _ _ _ ex, of img ds name ph] by blast
    from keep nr save t d1 show ?thesis by simp
  qed
  have second: "let d' = snd (register_fingerprint lib d image_path user_id name ph) in
         map_option username (get_fingerprint_by_id d' user_id) = Some name \<and>
         register_fingerprint lib d' image_path user_id name' ph' = (AlreadyRegistered, d') \<and>
         get_fingerprint_by_id (snd (register_fingerprint lib d' image_path user_id name' ph')) user_id =
           get_fingerprint_by_id d' user_id"
    if ok: "fst (register_fingerprint lib d image_path user_id name ph) = Registered"
  proof -
    from ok obtain img0 where im: "imread lib image_path = Some img0"
      by (cases "imread lib image_path") (simp_all add: register_fingerprint_def)
    from ok im have g: "passes_gate lib image_path img0"
      by (auto simp: passes_gate_def register_fingerprint_def split: if_splits)
    from ok im g obtain ds0 where o: "orb_descriptors lib (enhance_fingerprint lib img0) = Some ds0"
      by (cases "orb_descriptors lib (enhance_fingerprint lib img0)")
        (simp_all add: passes_gate_def register_fingerprint_def Let_def)
    from ok im g o have ne: "ds0 \<noteq> []"
      by (auto simp: passes_gate_def register_fingerprint_def Let_def split: if_splits)
    from ok im g o ne have fresh: "get_fingerprint_by_id d user_id = None"
      by (auto simp: passes_gate_def register_fingerprint_def Let_def split: if_splits)
    define data0 where "data0 = \<lparr>orb = ds0,
        minutiae = extract_minutiae lib (enhance_fingerprint lib img0),
        username = name, phone = ph\<rparr>"
    have reg: "register_fingerprint lib d image_path user_id name ph = save_fingerprint d user_id data0"
      using im g o ne fresh by (simp add: passes_gate_def register_fingerprint_def Let_def data0_def)
    have got: "get_fingerprint_by_id (snd (save_fingerprint d user_id data0)) user_id = Some data0"
      using get_after_save[OF fresh, of data0] by blast
    then have ex: "get_fingerprint_by_id (snd (save_fingerprint d user_id data0)) user_id \<noteq> None"
      by simp
    from dup[OF g o ne ex, of name' ph']
    have again: "register_fingerprint lib (snd (save_fingerprint d user_id data0)) image_path user_id name' ph' =
        (AlreadyRegistered, snd (save_fingerprint d user_id data0))" .
    show ?thesis unfolding Let_def reg using got again by (simp add: data0_def)
  qed
  from first second show ?thesis by blast
qed

theorem duplicate_enrollment_keeps_template_witness:
  "fst (register_fingerprint sharp_lib [] ''finger.png'' ''u1'' ''alice'' ''555'') = Registered \<and>
   snd (register_fingerprint sharp_lib [] ''finger.png'' ''u1'' ''alice'' ''555'') = u1_db \<and>
   get_fingerprint_by_id u1_db ''u1'' = Some u1_template \<and>
   passes_gate sharp_lib ''finger.png'' (ex_skeleton, 0) \<and>
   orb_descriptors sharp_lib (enhance_fingerprint sharp_lib (ex_skeleton, 0)) = Some [[1, 2], [3, 4]] \<and>
   register_fingerprint sharp_lib u1_db ''finger.png'' ''u1'' ''mallory'' ''000'' =
     (AlreadyRegistered, u1_db) \<and>
   get_fingerprint_by_id
     (snd (register_fingerprint sharp_lib u1_db ''finger.png'' ''u1'' ''mallory'' ''000'')) ''u1'' =
     Some u1_template"
proof -
  have reg: "register_fingerprint sharp_lib [] ''finger.png'' ''u1'' ''alice'' ''555'' = (Registered, u1_db)"
    using register_examples by simp
  have t: "get_fingerprint_by_id u1_db ''u1'' = Some u1_template"
    by (simp add: gate_eval)
  have g: "passes_gate sharp_lib ''finger.png'' (ex_skeleton, 0)"
    using passes_gate_examples by simp
  have o: "orb_descriptors sharp_lib (enhance_fingerprint sharp_lib (ex_skeleton, 0)) = Some [[1, 2], [3, 4]]"
    by (simp add: lib_eval)
  have ne: "[[1, 2], [3, 4 :: 8 word]] \<noteq> []" by simp
  from duplicate_enrollment_keeps_template
    [of u1_db "''u1''" u1_template sharp_lib "''finger.png''" "''mallory''" "''000''"
        "(ex_skeleton, 0)" "[[1, 2], [3, 4]]"] t g o ne
  have a: "register_fingerprint sharp_lib u1_db ''finger.png'' ''u1'' ''mallory'' ''000'' =
     (AlreadyRegistered, u1_db)"
    by blast
  from duplicate_enrollment_keeps_template
    [of "[]" "''u1''" _ sharp_lib "''finger.png''" "''alice''" "''555''" _ _ _ "''mallory''" "''000''"] reg
  have b: "get_fingerprint_by_id
     (snd (register_fingerprint sharp_lib u1_db ''finger.png'' ''u1'' ''mallory'' ''000'')) ''u1'' =
     get_fingerprint_by_id u1_db ''u1''"
    by (simp add: Let_def)
  from reg t g o a b show ?thesis by simp
qed

text \<open>
  The quality gate and the descriptor check come before the duplicate check: with a
  template stored for u1, an attempt for u1 with a blurry image is answered with the
  outcome of the blur check, and the table is unchanged.
\<close>

lemma gate_precedes_duplicate_check:
  "get_fingerprint_by_id u1_db ''u1'' = Some u1_template \<and>
   register_fingerprint blurry_lib u1_db ''finger.png'' ''u1'' ''mallory'' ''000'' = (TooBlurry, u1_db)"
  using register_examples by (simp add: gate_eval)

text \<open>
  C2, as the code has it. If an image passes the quality gate, the detector finds at
  least one descriptor on its enhancement, the scan finds at least one minutia there,
  and rotating the image by 0 degrees returns it unchanged, then enrolling it under a
  user id without a template succeeds, and verifying the same image for that user
  returns match_found with match true: the hypothesis at 0 degrees alone has a minutiae
  score of 100 and so a fused score of at least 90.
\<close>

theorem enroll_then_verify_matches:
  "passes_gate lib image_path img \<and> get_fingerprint_by_id d user_id = None \<and>
   orb_descriptors lib (enhance_fingerprint lib img) = Some ds \<and> ds \<noteq> [] \<and>
   extract_minutiae lib (enhance_fingerprint lib img) \<noteq> [] \<and>
   rotate_image lib img 0 = img \<longrightarrow>
     fst (register_fingerprint lib d image_path user_id name ph) = Registered \<and>
     (let r = verify_fingerprint lib (snd (register_fingerprint lib d image_path user_id name ph))
                image_path user_id
      in status r = Match_found \<and> is_match r \<and> accuracy r \<ge> 90 \<and>
         matched_username r = Some name)"
proof
  assume a: "passes_gate lib image_path img \<and> get_fingerprint_by_id d user_id = None \<and>
   orb_descriptors lib (enhance_fingerprint lib img) = Some ds \<and> ds \<noteq> [] \<and>
   extract_minutiae lib (enhance_fingerprint lib img) \<noteq> [] \<and>
   rotate_image lib img 0 = img"
  define ms where "ms = extract_minutiae lib (enhance_fingerprint lib img)"
  define data where "data = \<lparr>orb = ds, minutiae = ms, username = name, phone = ph\<rparr>"
  define d' where "d' = snd (save_fingerprint d user_id data)"
  from a have ms: "ms \<noteq> []" by (simp add: ms_def)
  have reg: "register_fingerprint lib d image_path user_id name ph = save_fingerprint d user_id data"
    using a by (simp add: passes_gate_def register_fingerprint_def Let_def data_def ms_def)
  from a have fresh: "get_fingerprint_by_id d user_id = None" by simp
  have saved: "fst (save_fingerprint d user_id data) = Registered"
    using get_after_save[OF fresh, of data] by simp
  have got: "get_fingerprint_by_id d' user_id = Some data"
    unfolding d'_def using get_after_save[OF fresh, of data] by blast
  have r: "reaches_loop lib d' image_path user_id img data"
    using a got by (simp add: reaches_loop_def passes_gate_def)
  let ?hs = "map (score_hypothesis lib data img) angles"
  let ?b = "foldl update_best best_init ?hs"
  have zero: "score_hypothesis lib data img 0 = Some (accuracy_orb_of lib ds ds, 100)"
    using a ms by (simp add: score_hypothesis_def Let_def data_def ms_def[symmetric]
        accuracy_minutiae_self)
  have "(0::int) \<in> set angles" by (simp add: angles_def)
  then have "Some (accuracy_orb_of lib ds ds, 100) \<in> set ?hs"
    using zero by (metis image_eqI set_map)
  from foldl_update_best_upper[OF this]
  have "final_score_of (accuracy_orb_of lib ds ds) 100 \<le> best_final_score ?b" .
  moreover have "90 \<le> final_score_of (accuracy_orb_of lib ds ds) 100"
    using accuracy_orb_nonneg[of lib ds ds] by (rule final_score_full_minutiae)
  ultimately have best: "90 \<le> best_final_score ?b" by simp
  have v: "status (verify_fingerprint lib d' image_path user_id) = Match_found \<and>
      is_match (verify_fingerprint lib d' image_path user_id) \<and>
      accuracy (verify_fingerprint lib d' image_path user_id) \<ge> 90 \<and>
      matched_username (verify_fingerprint lib d' image_path user_id) = Some name"
    using best by (simp add: verify_reaches[OF r] Let_def MATCH_THRESHOLD_def data_def)
  show "fst (register_fingerprint lib d image_path user_id name ph) = Registered \<and>
     (let r = verify_fingerprint lib (snd (register_fingerprint lib d image_path user_id name ph))
                image_path user_id
      in status r = Match_found \<and> is_match r \<and> accuracy r \<ge> 90 \<and>
         matched_username r = Some name)"
    unfolding Let_def reg d'_def[symmetric] using v saved by simp
qed

theorem enroll_then_verify_matches_witness:
  "passes_gate sharp_lib ''finger.png'' (ex_skeleton, 0) \<and>
   get_fingerprint_by_id [] ''u1'' = None \<and>
   orb_descriptors sharp_lib (enhance_fingerprint sharp_lib (ex_skeleton, 0)) = Some [[1, 2], [3, 4]] \<and>
   extract_minutiae sharp_lib (enhance_fingerprint sharp_lib (ex_skeleton, 0)) \<noteq> [] \<and>
   rotate_image sharp_lib (ex_skeleton, 0) 0 = (ex_skeleton, 0) \<and>
   register_fingerprint sharp_lib [] ''finger.png'' ''u1'' ''alice'' ''555'' = (Registered, u1_db) \<and>
   status (verify_fingerprint sharp_lib u1_db ''finger.png'' ''u1'') = Match_found \<and>
   is_match (verify_fingerprint sharp_lib u1_db ''finger.png'' ''u1'')"
proof -
  have g: "passes_gate sharp_lib ''finger.png'' (ex_skeleton, 0)"
    using passes_gate_examples by simp
  have n: "get_fingerprint_by_id [] ''u1'' = None"
    by (simp add: get_fingerprint_by_id_def)
  have o: "orb_descriptors sharp_lib (enhance_fingerprint sharp_lib (ex_skeleton, 0)) = Some [[1, 2], [3, 4]]"
    by (simp add: lib_eval)
  have ne: "[[1, 2], [3, 4 :: 8 word]] \<noteq> []" by simp
  have m: "extract_minutiae sharp_lib (enhance_fingerprint sharp_lib (ex_skeleton, 0)) \<noteq> []"
    by (simp add: extract_minutiae_def lib_eval scan_minutiae_ex_skeleton)
  have z: "rotate_image sharp_lib (ex_skeleton, 0) 0 = (ex_skeleton, 0)"
    by (simp add: lib_eval)
  have reg: "register_fingerprint sharp_lib [] ''finger.png'' ''u1'' ''alice'' ''555'' = (Registered, u1_db)"
    using register_examples by simp
  from enroll_then_verify_matches
    [of sharp_lib "''finger.png''" "(ex_skeleton, 0)" "[]" "''u1''" "[[1, 2], [3, 4]]" "''alice''" "''555''"]
    g n o ne m z
  have "status (verify_fingerprint sharp_lib u1_db ''finger.png'' ''u1'') = Match_found \<and>
        is_match (verify_fingerprint sharp_lib u1_db ''finger.png'' ''u1'')"
    by (simp add: reg Let_def)
  with g n o m z reg show ?thesis by blast
qed

text \<open>
  The claim C2 as it is written fails at its first step: an image can pass the quality
  gate and still yield no descriptors, and enrollment then returns the outcome for
  missing descriptors instead of succeeding.
\<close>

theorem enroll_passing_gate_counterexample:
  "passes_gate featureless_lib ''finger.png'' (ex_skeleton, 0) \<and>
   get_fingerprint_by_id [] ''u1'' = None \<and>
   register_fingerprint featureless_lib [] ''finger.png'' ''u1'' ''alice'' ''555'' =
     (NoDescriptorsFound, []) \<and>
   status (verify_fingerprint featureless_lib
             (snd (register_fingerprint featureless_lib [] ''finger.png'' ''u1'' ''alice'' ''555''))
             ''finger.png'' ''u1'') = No_user"
  using passes_gate_examples register_examples
  by (simp add: get_fingerprint_by_id_def verify_fingerprint_def early_return_def
      is_image_blurry_def is_fingerprint_present_def lib_eval)

text \<open>
  An image with descriptors but without any minutia is enrolled (enrollment checks the
  descriptors only), and verifying the same image then ends in no_match: the minutiae
  score is 0 and the fused score 10.
\<close>

lemma enroll_without_minutiae_then_no_match:
  "passes_gate sparse_lib ''finger.png'' (ex_stub, 0) \<and>
   fst (register_fingerprint sparse_lib [] ''finger.png'' ''u1'' ''alice'' ''555'') = Registered \<and>
   verify_fingerprint sparse_lib
     (snd (register_fingerprint sparse_lib [] ''finger.png'' ''u1'' ''alice'' ''555''))
     ''finger.png'' ''u1'' =
     \<lparr>status = No_match, is_match = False, accuracy = 10, orb_score = 100,
      minutiae_score = 0, matched_username = Some ''alice'', message = ''No match found''\<rparr>"
proof -
  let ?data = "\<lparr>orb = [[1, 2], [3, 4]], minutiae = [], username = ''alice'', phone = ''555''\<rparr>"
  let ?d = "[\<lparr>row_user_id = ''u1'', row_username = ''alice'', row_phone = ''555'',
              row_descriptors = ?data\<rparr>]"
  have reg: "register_fingerprint sparse_lib [] ''finger.png'' ''u1'' ''alice'' ''555'' = (Registered, ?d)"
    by (simp add: register_fingerprint_def save_fingerprint_def extract_minutiae_def gate_eval
        lib_eval scan_minutiae_ex_stub Let_def)
  have r: "reaches_loop sparse_lib ?d ''finger.png'' ''u1'' (ex_stub, 0) ?data"
    by (simp add: gate_eval lib_eval)
  have s: "map (score_hypothesis sparse_lib ?data (ex_stub, 0)) angles =
     [Some (100, 0), Some (100, 0), Some (100, 0), Some (100, 0), Some (100, 0)]"
    by (simp add: score_eval scan_minutiae_ex_stub accuracy_minutiae_empty percent_eval)
  show ?thesis
    using passes_gate_examples by (simp add: reg verify_reaches[OF r] s best_eval fused_values)
qed

text \<open>
  The username and phone columns can be changed after enrollment; the template read
  back for matching is the JSON document written at enrollment and keeps the username
  of that time.
\<close>

lemma update_keeps_template:
  "get_fingerprint_by_id (update_fingerprint d user_id name ph) u = get_fingerprint_by_id d u"
proof -
  have "find (\<lambda>r. row_user_id r = u) (update_fingerprint d user_id name ph) =
        map_option (\<lambda>r. if row_user_id r = user_id then r\<lparr>row_username := name, row_phone := ph\<rparr> else r)
          (find (\<lambda>r. row_user_id r = u) d)"
    unfolding update_fingerprint_def by (induction d) auto
  then show ?thesis
    by (cases "find (\<lambda>r. row_user_id r = u) d") (auto simp: get_fingerprint_by_id_def)
qed

end
